theory Spec2Isabelle
  imports Complex_Main
begin

section \<open>Strings\<close>

text \<open>
  A Python \<open>str\<close> is modelled as a \<open>string\<close>, one list element per character, so that
  \<open>len\<close> is \<open>length\<close>. The characters that \<open>str.strip()\<close> removes are the ones for
  which \<open>str.isspace()\<close> holds; below U+0080 these are U+0009..U+000D, U+001C..U+001F
  and the blank.
\<close>

definition is_space :: "char \<Rightarrow> bool" where
  "is_space c =
     (let k = (of_char c :: nat) in (9 \<le> k \<and> k \<le> 13) \<or> (28 \<le> k \<and> k \<le> 32))"

definition strip :: "string \<Rightarrow> string" where
  "strip s = rev (dropWhile is_space (rev (dropWhile is_space s)))"

definition startswith :: "string \<Rightarrow> string \<Rightarrow> bool" where
  "startswith s p = (take (length p) s = p)"

definition endswith :: "string \<Rightarrow> string \<Rightarrow> bool" where
  "endswith s p = (length p \<le> length s \<and> drop (length s - length p) s = p)"

text \<open>\<open>sep.join(parts)\<close>\<close>

fun join :: "string \<Rightarrow> string list \<Rightarrow> string" where
  "join sep [] = []"
| "join sep [x] = x"
| "join sep (x # y # ys) = x @ sep @ join sep (y # ys)"

section \<open>Parsed documents\<close>

text \<open>
  What \<open>BeautifulSoup(response.text, 'html.parser')\<close> returns: a tree of tags, each with
  its name, its attribute dictionary and its contents, and of text nodes.
\<close>

datatype node =
    Tag (tag_name: string) (tag_attrs: "(string \<times> string) list") (tag_contents: "node list")
  | NavigableString string

text \<open>\<open>tag.get_text()\<close>: the text nodes below the tag, in document order, concatenated.\<close>

fun get_text :: "node \<Rightarrow> string" where
  "get_text (NavigableString s) = s"
| "get_text (Tag n as cs) = concat (map get_text cs)"

fun descendants :: "node \<Rightarrow> node list" where
  "descendants (NavigableString s) = []"
| "descendants (Tag n as cs) = concat (map (\<lambda>c. c # descendants c) cs)"

fun is_tag_named :: "string \<Rightarrow> node \<Rightarrow> bool" where
  "is_tag_named n (Tag m as cs) = (m = n)"
| "is_tag_named n (NavigableString s) = False"

text \<open>\<open>tag.find_all(name)\<close> and \<open>tag.find(name)\<close> search the descendants of the tag.\<close>

definition find_all :: "string \<Rightarrow> node \<Rightarrow> node list" where
  "find_all n t = filter (is_tag_named n) (descendants t)"

definition find_tag :: "string \<Rightarrow> node \<Rightarrow> node option" where
  "find_tag n t = (case find_all n t of [] \<Rightarrow> None | x # _ \<Rightarrow> Some x)"

text \<open>\<open>tag.get(key)\<close>: the attribute's value, or \<open>None\<close>.\<close>

fun get_attr :: "node \<Rightarrow> string \<Rightarrow> string option" where
  "get_attr (Tag n as cs) k = map_of as k"
| "get_attr (NavigableString s) k = None"

text \<open>
  \<open>if tag.get(key)\<close>: the value counts only when it is a non-empty string.
\<close>

definition truthy_attr :: "node \<Rightarrow> string \<Rightarrow> string option" where
  "truthy_attr t k =
     (case get_attr t k of None \<Rightarrow> None | Some v \<Rightarrow> if v = [] then None else Some v)"

text \<open>
  The CSS selector engine behind \<open>select\<close> and \<open>select_one\<close> is a library; it is a
  parameter of the model: \<open>css sel t\<close> is the list of tags below \<open>t\<close> that match the
  selector \<open>sel\<close>, in document order.
\<close>

type_synonym selector_engine = "string \<Rightarrow> node \<Rightarrow> node list"

definition select_one :: "selector_engine \<Rightarrow> string \<Rightarrow> node \<Rightarrow> node option" where
  "select_one css sel t = (case css sel t of [] \<Rightarrow> None | x # _ \<Rightarrow> Some x)"


section \<open>Sources, responses, article records\<close>

text \<open>A source descriptor (an entry of \<open>self.sources\<close>); only some have a country.\<close>

record source =
  name :: string
  url :: string
  article_selector :: string
  title_selector :: string
  content_selector :: string
  date_selector :: string
  category :: string
  region :: string
  country :: "string option"

text \<open>
  The outcome of \<open>session.get\<close> is \<open>None\<close> when the request raises, and the status
  with the parsed body otherwise. \<open>raise_for_status\<close> raises for 4xx and 5xx.
\<close>

record response =
  status_code :: nat
  soup :: node

definition raise_for_status :: "response \<Rightarrow> bool" where
  "raise_for_status r = (400 \<le> status_code r \<and> status_code r < 600)"

text \<open>
  The readings of \<open>datetime.now()\<close> a call makes: \<open>strftime("%Y-%m-%d")\<close>,
  \<open>isoformat()\<close> and \<open>strftime('%Y%m%d%H%M%S')\<close>.
\<close>

record clock =
  today :: string
  isonow :: string
  compact :: string

text \<open>
  The dictionary \<open>article_data\<close>. The keys \<open>region\<close>, \<open>country\<close> and \<open>language\<close> exist
  in some variants only.
\<close>

record article =
  art_source :: string
  art_category :: string
  art_region :: "string option"
  art_country :: "string option"
  art_url :: string
  title :: string
  author :: string
  description :: string
  content :: string
  date :: string
  content_length :: nat
  language :: "string option"
  scraped_at :: string

section \<open>Article extraction\<close>

text \<open>
  The field extraction of \<open>scrape_article\<close> has the same text in
  \<open>scrape-articles.py\<close>, \<open>us-scraper.py\<close>, \<open>euro-scraper.py\<close> and \<open>asia-scraper.py\<close>.
\<close>

text \<open>The generic selector sets of the second tier, and those of author and description.\<close>

definition generic_title_selector :: string where
  "generic_title_selector = ''h1, .headline, .article-title, .title''"

definition generic_content_selector :: string where
  \<open>generic_content_selector =
     ''.article-body, .content, .entry-content, article, [itemprop="articleBody"]''\<close>

definition generic_date_selector :: string where
  \<open>generic_date_selector = ''time, .date, .timestamp, [itemprop="datePublished"]''\<close>

definition author_selector :: string where
  \<open>author_selector = ''.author, [rel="author"], [itemprop="author"], .byline''\<close>

definition description_selector :: string where
  \<open>description_selector = ''meta[name="description"]''\<close>

definition extract_title :: "selector_engine \<Rightarrow> node \<Rightarrow> source \<Rightarrow> string" where
  "extract_title css sp src =
     (let t = select_one css (title_selector src) sp;
          t = (if t = None then select_one css generic_title_selector sp else t)
      in case t of Some e \<Rightarrow> strip (get_text e) | None \<Rightarrow> ''Title not found'')"

definition content_container :: "selector_engine \<Rightarrow> node \<Rightarrow> source \<Rightarrow> node option" where
  "content_container css sp src =
     (let c = select_one css (content_selector src) sp
      in if c = None then select_one css generic_content_selector sp else c)"

definition extract_content :: "selector_engine \<Rightarrow> node \<Rightarrow> source \<Rightarrow> string" where
  "extract_content css sp src =
     (case content_container css sp src of
        Some c \<Rightarrow>
          (let paragraphs = find_all ''p'' c;
               content_text = join '' '' (map (\<lambda>p. strip (get_text p)) paragraphs)
           in if content_text = [] then strip (get_text c) else content_text)
      | None \<Rightarrow> ''Content not found'')"

definition extract_date :: "selector_engine \<Rightarrow> clock \<Rightarrow> node \<Rightarrow> source \<Rightarrow> string" where
  "extract_date css clk sp src =
     (let d = select_one css (date_selector src) sp;
          d = (if d = None then select_one css generic_date_selector sp else d)
      in case d of Some e \<Rightarrow> strip (get_text e) | None \<Rightarrow> today clk)"

definition extract_author :: "selector_engine \<Rightarrow> node \<Rightarrow> string" where
  "extract_author css sp =
     (case select_one css author_selector sp of
        Some e \<Rightarrow> strip (get_text e) | None \<Rightarrow> ''Author not found'')"

text \<open>
  \<open>meta_desc['content'] if meta_desc and meta_desc.get('content') else ""\<close>
\<close>

definition extract_description :: "selector_engine \<Rightarrow> node \<Rightarrow> string" where
  "extract_description css sp =
     (case select_one css description_selector sp of
        None \<Rightarrow> []
      | Some m \<Rightarrow> (case truthy_attr m ''content'' of Some v \<Rightarrow> v | None \<Rightarrow> []))"

text \<open>
  \<open>ArticleScraper.scrape_article\<close> (\<open>scrape-articles.py\<close>). Any exception (a failed
  request, an error status) makes the method return \<open>None\<close>.
\<close>

definition scrape_article_general ::
  "selector_engine \<Rightarrow> clock \<Rightarrow> response option \<Rightarrow> string \<Rightarrow> source \<Rightarrow> article option" where
  "scrape_article_general css clk resp link src =
     (case resp of
        None \<Rightarrow> None
      | Some r \<Rightarrow>
          if raise_for_status r then None
          else
            (let sp = soup r;
                 title_text = extract_title css sp src;
                 content_text = extract_content css sp src;
                 date_text = extract_date css clk sp src;
                 author_text = extract_author css sp;
                 desc = extract_description css sp
             in Some \<lparr>art_source = name src, art_category = category src,
                      art_region = None, art_country = None, art_url = link,
                      title = title_text, author = author_text, description = desc,
                      content = content_text, date = date_text,
                      content_length = length content_text, language = None,
                      scraped_at = isonow clk\<rparr>))"

text \<open>\<open>USNewsScraper.scrape_article\<close> (\<open>us-scraper.py\<close>) adds the region.\<close>

definition scrape_article_us ::
  "selector_engine \<Rightarrow> clock \<Rightarrow> response option \<Rightarrow> string \<Rightarrow> source \<Rightarrow> article option" where
  "scrape_article_us css clk resp link src =
     (case resp of
        None \<Rightarrow> None
      | Some r \<Rightarrow>
          if raise_for_status r then None
          else
            (let sp = soup r;
                 title_text = extract_title css sp src;
                 content_text = extract_content css sp src;
                 date_text = extract_date css clk sp src;
                 author_text = extract_author css sp;
                 desc = extract_description css sp
             in Some \<lparr>art_source = name src, art_category = category src,
                      art_region = Some (region src), art_country = None, art_url = link,
                      title = title_text, author = author_text, description = desc,
                      content = content_text, date = date_text,
                      content_length = length content_text, language = None,
                      scraped_at = isonow clk\<rparr>))"

text \<open>
  \<open>EuropeNewsScraper.scrape_article\<close> (\<open>euro-scraper.py\<close>): the country is
  \<open>source.get('country', '')\<close>, the language an and/or chain over it in which a source
  without a country counts as \<open>uk\<close>.
\<close>

definition language_euro :: "source \<Rightarrow> string" where
  "language_euro src =
     (if (case country src of None \<Rightarrow> ''uk'' | Some c \<Rightarrow> c) = ''uk'' then ''en''
      else if country src = Some ''germany'' then ''de''
      else if country src = Some ''france'' then ''fr''
      else if country src = Some ''spain'' then ''es''
      else ''en'')"

definition scrape_article_euro ::
  "selector_engine \<Rightarrow> clock \<Rightarrow> response option \<Rightarrow> string \<Rightarrow> source \<Rightarrow> article option" where
  "scrape_article_euro css clk resp link src =
     (case resp of
        None \<Rightarrow> None
      | Some r \<Rightarrow>
          if raise_for_status r then None
          else
            (let sp = soup r;
                 title_text = extract_title css sp src;
                 content_text = extract_content css sp src;
                 date_text = extract_date css clk sp src;
                 author_text = extract_author css sp;
                 desc = extract_description css sp
             in Some \<lparr>art_source = name src, art_category = category src,
                      art_region = Some (region src),
                      art_country = Some (case country src of None \<Rightarrow> [] | Some c \<Rightarrow> c),
                      art_url = link,
                      title = title_text, author = author_text, description = desc,
                      content = content_text, date = date_text,
                      content_length = length content_text,
                      language = Some (language_euro src),
                      scraped_at = isonow clk\<rparr>))"

text \<open>\<open>AsiaNewsScraper.scrape_article\<close> (\<open>asia-scraper.py\<close>).\<close>

definition language_asia :: "source \<Rightarrow> string" where
  "language_asia src =
     (if country src = Some ''japan'' then ''ja''
      else if country src = Some ''china'' then ''zh''
      else if country src = Some ''south_korea'' then ''ko''
      else if country src = Some ''india'' then ''en''
      else ''en'')"

definition scrape_article_asia ::
  "selector_engine \<Rightarrow> clock \<Rightarrow> response option \<Rightarrow> string \<Rightarrow> source \<Rightarrow> article option" where
  "scrape_article_asia css clk resp link src =
     (case resp of
        None \<Rightarrow> None
      | Some r \<Rightarrow>
          if raise_for_status r then None
          else
            (let sp = soup r;
                 title_text = extract_title css sp src;
                 content_text = extract_content css sp src;
                 date_text = extract_date css clk sp src;
                 author_text = extract_author css sp;
                 desc = extract_description css sp
             in Some \<lparr>art_source = name src, art_category = category src,
                      art_region = Some (region src),
                      art_country = Some (case country src of None \<Rightarrow> [] | Some c \<Rightarrow> c),
                      art_url = link,
                      title = title_text, author = author_text, description = desc,
                      content = content_text, date = date_text,
                      content_length = length content_text,
                      language = Some (language_asia src),
                      scraped_at = isonow clk\<rparr>))"

section \<open>Link discovery\<close>

text \<open>
  \<open>re.match(r'(https?://[^/]+)', url)\<close>: group 1 of the match, or \<open>None\<close> when the
  pattern does not match at the start of the string.
\<close>

definition match_domain :: "string \<Rightarrow> string option" where
  "match_domain u =
     (let scheme = (if startswith u ''https://'' then Some ''https://''
                    else if startswith u ''http://'' then Some ''http://''
                    else None)
      in case scheme of
           None \<Rightarrow> None
         | Some sc \<Rightarrow>
             (let host = takeWhile (\<lambda>c. c \<noteq> CHR ''/'') (drop (length sc) u)
              in if host = [] then None else Some (sc @ host)))"

definition headline_selector :: string where
  "headline_selector = ''h2 a, h3 a, .headline a, .title a''"

text \<open>
  The three methods that look for the link of one article container; \<open>None\<close> stands
  for a \<open>link\<close> that is \<open>None\<close> or empty.
\<close>

definition find_link :: "selector_engine \<Rightarrow> node \<Rightarrow> string option" where
  "find_link css article =
     (let link = (case find_tag ''a'' article of
                    Some link_tag \<Rightarrow> truthy_attr link_tag ''href'' | None \<Rightarrow> None);
          link = (if link = None
                  then (case select_one css headline_selector article of
                          Some headline \<Rightarrow> truthy_attr headline ''href'' | None \<Rightarrow> None)
                  else link);
          link = (if link = None \<and> is_tag_named ''a'' article
                  then truthy_attr article ''href'' else link)
      in link)"

text \<open>
  The loop over the containers in \<open>ArticleScraper.get_article_links\<close>
  (\<open>scrape-articles.py\<close>). The result is \<open>None\<close> when the loop raises, which is when
  \<open>re.match\<close> returns \<open>None\<close> and \<open>.group\<close> is called on it.
\<close>

fun collect_links_general ::
  "selector_engine \<Rightarrow> string \<Rightarrow> node list \<Rightarrow> string list \<Rightarrow> string list option" where
  "collect_links_general css u [] links = Some links"
| "collect_links_general css u (article # rest) links =
     (case find_link css article of
        None \<Rightarrow> collect_links_general css u rest links
      | Some link \<Rightarrow>
          (case (if startswith link ''/''
                 then (case match_domain u of
                         None \<Rightarrow> None | Some domain \<Rightarrow> Some (domain @ link))
                 else Some link) of
             None \<Rightarrow> None
           | Some link' \<Rightarrow>
               collect_links_general css u rest
                 (if link' \<notin> set links then links @ [link'] else links)))"

definition get_article_links_general ::
  "selector_engine \<Rightarrow> response option \<Rightarrow> source \<Rightarrow> string list" where
  "get_article_links_general css resp src =
     (case resp of
        None \<Rightarrow> []
      | Some r \<Rightarrow>
          if raise_for_status r then []
          else (case collect_links_general css (url src)
                       (take 15 (css (article_selector src) (soup r))) [] of
                  None \<Rightarrow> [] | Some links \<Rightarrow> links))"

text \<open>
  \<open>get_article_links\<close> of \<open>USNewsScraper\<close>, \<open>EuropeNewsScraper\<close> and
  \<open>AsiaNewsScraper\<close>: the three loops have the same text. They also join a link that
  does not start with \<open>http\<close> to the domain, and drop a link that ends with \<open>#\<close>.
\<close>

fun collect_links_regional ::
  "selector_engine \<Rightarrow> string \<Rightarrow> node list \<Rightarrow> string list \<Rightarrow> string list option" where
  "collect_links_regional css u [] links = Some links"
| "collect_links_regional css u (article # rest) links =
     (case find_link css article of
        None \<Rightarrow> collect_links_regional css u rest links
      | Some link \<Rightarrow>
          (case (if startswith link ''/''
                 then (case match_domain u of
                         None \<Rightarrow> None | Some domain \<Rightarrow> Some (domain @ link))
                 else if \<not> startswith link ''http''
                 then (case match_domain u of
                         None \<Rightarrow> None
                       | Some domain \<Rightarrow>
                           Some (domain @ ''/'' @ dropWhile (\<lambda>c. c = CHR ''/'') link))
                 else Some link) of
             None \<Rightarrow> None
           | Some link' \<Rightarrow>
               collect_links_regional css u rest
                 (if link' \<notin> set links \<and> \<not> endswith link' ''#''
                  then links @ [link'] else links)))"

definition get_article_links_regional ::
  "selector_engine \<Rightarrow> response option \<Rightarrow> source \<Rightarrow> string list" where
  "get_article_links_regional css resp src =
     (case resp of
        None \<Rightarrow> []
      | Some r \<Rightarrow>
          if raise_for_status r then []
          else (case collect_links_regional css (url src)
                       (take 15 (css (article_selector src) (soup r))) [] of
                  None \<Rightarrow> [] | Some links \<Rightarrow> links))"

text \<open>A URL is absolute when it starts with a scheme and a host.\<close>

definition absolute_url :: "string \<Rightarrow> bool" where
  "absolute_url u = (match_domain u \<noteq> None)"

section \<open>Files\<close>

text \<open>
  What the scrapers write: the JSON array of the accumulated articles, the JSON object
  of one article, a summary, or a report.
\<close>

record summary =
  article_title :: string
  article_source :: string
  article_url :: string
  article_date :: string
  summary_text :: string
  summary_generated_at :: string

text \<open>
  The count dictionaries of a report keep the order in which their keys were inserted.
  The mean is an \<open>int\<close> 0 or the quotient of two integers; the quotient is kept exact.
\<close>

record report =
  total_articles :: nat
  by_source :: "(string \<times> nat) list"
  by_region :: "(string \<times> nat) list option"
  by_country :: "(string \<times> nat) list option"
  by_category :: "(string \<times> nat) list"
  by_language :: "(string \<times> nat) list option"
  average_content_length :: rat
  timeframe :: "(string \<times> string) option"
  report_scraped_at :: "string option"

datatype document =
    ArticlesDoc "article list"
  | ArticleDoc article
  | SummaryDoc summary
  | ReportDoc report

text \<open>
  The file system: the directories that exist and the files with their contents. Paths
  are compared as they are written; the current directory (the empty \<open>dirname\<close> and
  \<open>.\<close>) and the root always exist. Opening a file for writing fails when its directory
  does not exist or when the path names a directory; no other failure is modelled.
\<close>

record filesystem =
  dirs :: "string list"
  files :: "(string \<times> document) list"

fun put :: "string \<Rightarrow> document \<Rightarrow> (string \<times> document) list \<Rightarrow> (string \<times> document) list" where
  "put p d [] = [(p, d)]"
| "put p d ((q, e) # rest) = (if p = q then (p, d) # rest else (q, e) # put p d rest)"

text \<open>\<open>os.path.dirname\<close> and \<open>os.path.basename\<close> of \<open>posixpath\<close>.\<close>

definition dirname :: "string \<Rightarrow> string" where
  "dirname p =
     (let head = rev (dropWhile (\<lambda>c. c \<noteq> CHR ''/'') (rev p))
      in if head \<noteq> [] \<and> \<not> list_all (\<lambda>c. c = CHR ''/'') head
         then rev (dropWhile (\<lambda>c. c = CHR ''/'') (rev head)) else head)"

definition basename :: "string \<Rightarrow> string" where
  "basename p = rev (takeWhile (\<lambda>c. c \<noteq> CHR ''/'') (rev p))"

text \<open>\<open>os.path.join(a, b)\<close>\<close>

definition path_join :: "string \<Rightarrow> string \<Rightarrow> string" where
  "path_join a b =
     (if startswith b ''/'' then b
      else if a = [] \<or> endswith a ''/'' then a @ b
      else a @ ''/'' @ b)"

definition is_dir :: "filesystem \<Rightarrow> string \<Rightarrow> bool" where
  "is_dir fs p = (p = ''.'' \<or> p = ''/'' \<or> p \<in> set (dirs fs))"

definition is_file :: "filesystem \<Rightarrow> string \<Rightarrow> bool" where
  "is_file fs p = (map_of (files fs) p \<noteq> None)"

text \<open>\<open>os.path.exists\<close>\<close>

definition path_exists :: "filesystem \<Rightarrow> string \<Rightarrow> bool" where
  "path_exists fs p = (is_dir fs p \<or> is_file fs p)"

text \<open>The proper ancestors of a path: its non-empty prefixes that end before a slash.\<close>

fun ancestors_from :: "string \<Rightarrow> string \<Rightarrow> string list" where
  "ancestors_from pre [] = []"
| "ancestors_from pre (c # cs) =
     (if c = CHR ''/'' \<and> pre \<noteq> [] then [pre] else []) @ ancestors_from (pre @ [c]) cs"

text \<open>
  \<open>os.makedirs(d, exist_ok)\<close> creates the directory and its missing ancestors. It
  raises (\<open>None\<close>) when the path or an ancestor is a file, and, without \<open>exist_ok\<close>,
  when the directory exists.
\<close>

definition makedirs :: "string \<Rightarrow> bool \<Rightarrow> filesystem \<Rightarrow> filesystem option" where
  "makedirs d exist_ok fs =
     (if d = [] \<or> is_file fs d \<or> list_ex (is_file fs) (ancestors_from [] d) then None
      else if is_dir fs d then (if exist_ok then Some fs else None)
      else Some (fs\<lparr>dirs := dirs fs
                  @ filter (\<lambda>a. \<not> is_dir fs a) (ancestors_from [] d @ [d])\<rparr>))"

text \<open>\<open>with open(p, 'w') as f: json.dump(d, f)\<close>; \<open>None\<close> when \<open>open\<close> raises.\<close>

definition write_file :: "string \<Rightarrow> document \<Rightarrow> filesystem \<Rightarrow> filesystem option" where
  "write_file p d fs =
     (if basename p = [] \<or> is_dir fs p \<or> \<not> (dirname p = [] \<or> is_dir fs (dirname p))
      then None
      else Some (fs\<lparr>files := put p d (files fs)\<rparr>))"

text \<open>
  \<open>ArticleScraper.save_to_json\<close> (\<open>scrape-articles.py\<close>): a failure is logged and
  nothing else happens.
\<close>

definition save_to_json_general :: "string \<Rightarrow> article list \<Rightarrow> filesystem \<Rightarrow> filesystem" where
  "save_to_json_general output_file articles fs =
     (case write_file output_file (ArticlesDoc articles) fs of
        Some fs' \<Rightarrow> fs' | None \<Rightarrow> fs)"

text \<open>
  \<open>save_to_json\<close> of \<open>EuropeNewsScraper\<close> and \<open>AsiaNewsScraper\<close> (same text): the
  directory of the output file is created first when the path has one and it does not
  exist.
\<close>

definition save_to_json_regional :: "string \<Rightarrow> article list \<Rightarrow> filesystem \<Rightarrow> filesystem" where
  "save_to_json_regional output_file articles fs =
     (let output_dir = dirname output_file
      in case (if output_dir \<noteq> [] \<and> \<not> path_exists fs output_dir
               then makedirs output_dir False fs else Some fs) of
           None \<Rightarrow> fs
         | Some fs1 \<Rightarrow>
             (case write_file output_file (ArticlesDoc articles) fs1 of
                Some fs2 \<Rightarrow> fs2 | None \<Rightarrow> fs1))"

section \<open>Reports\<close>

datatype py_error = ZeroDivisionError | NameError | TypeError | AttributeError | IndexError

text \<open>\<open>a / b\<close> on integers.\<close>

definition truediv :: "nat \<Rightarrow> nat \<Rightarrow> py_error + rat" where
  "truediv a b = (if b = 0 then Inl ZeroDivisionError else Inr (of_nat a / of_nat b))"

text \<open>\<open>d[k] = d.get(k, 0) + 1\<close>\<close>

fun bump :: "string \<Rightarrow> (string \<times> nat) list \<Rightarrow> (string \<times> nat) list" where
  "bump k [] = [(k, 1)]"
| "bump k ((q, n) # rest) = (if k = q then (q, n + 1) # rest else (q, n) # bump k rest)"

text \<open>\<open>if k in d: d[k] += 1\<close>\<close>

definition bump_known :: "string \<Rightarrow> (string \<times> nat) list \<Rightarrow> (string \<times> nat) list" where
  "bump_known k d = (if map_of d k \<noteq> None then bump k d else d)"

text \<open>\<open>s.replace('.json', '_report.json')\<close> replaces every occurrence.\<close>

fun replace_json :: "string \<Rightarrow> string" where
  "replace_json [] = []"
| "replace_json (c # cs) =
     (if startswith (c # cs) ''.json'' then ''_report.json'' @ replace_json (drop 4 cs)
      else c # replace_json cs)"

text \<open>\<open>ArticleScraper.get_source_region\<close>\<close>

fun get_source_region :: "source list \<Rightarrow> string \<Rightarrow> string" where
  "get_source_region [] source_name = ''unknown''"
| "get_source_region (src # rest) source_name =
     (if name src = source_name then region src else get_source_region rest source_name)"

text \<open>
  The counting loop of \<open>ArticleScraper.generate_report\<close>; the second component is
  \<open>total_content_length\<close>.
\<close>

fun count_general :: "source list \<Rightarrow> article list \<Rightarrow> report \<times> nat \<Rightarrow> report \<times> nat" where
  "count_general srcs [] acc = acc"
| "count_general srcs (a # rest) (rep, tcl) =
     count_general srcs rest
       (rep\<lparr>by_source := bump (art_source a) (by_source rep),
            by_region := map_option (bump_known (get_source_region srcs (art_source a)))
                           (by_region rep),
            by_category := bump_known (art_category a) (by_category rep)\<rparr>,
        tcl + content_length a)"

text \<open>
  \<open>ArticleScraper.generate_report\<close>: the report or the exception that escapes, and the
  file system after the attempt to write the report.
\<close>

definition generate_report_general ::
  "source list \<Rightarrow> clock \<Rightarrow> string \<Rightarrow> article list \<Rightarrow> filesystem \<Rightarrow> py_error + report \<times> filesystem"
  where
  "generate_report_general srcs clk output_file articles fs =
     (let rep0 = \<lparr>total_articles = length articles, by_source = [],
                  by_region = Some [(''north_america'', 0), (''europe'', 0), (''asia'', 0)],
                  by_country = None,
                  by_category = [(''technology'', 0), (''business'', 0), (''investing'', 0)],
                  by_language = None, average_content_length = 0,
                  timeframe = Some (isonow clk, isonow clk), report_scraped_at = None\<rparr>;
          (rep1, total_content_length) = count_general srcs articles (rep0, 0)
      in case (if articles \<noteq> []
               then (case truediv total_content_length (length articles) of
                       Inl e \<Rightarrow> Inl e
                     | Inr q \<Rightarrow> Inr (rep1\<lparr>average_content_length := q\<rparr>))
               else Inr rep1) of
           Inl e \<Rightarrow> Inl e
         | Inr rep \<Rightarrow>
             Inr (rep, (case write_file (replace_json output_file) (ReportDoc rep) fs of
                          Some fs' \<Rightarrow> fs' | None \<Rightarrow> fs)))"

text \<open>
  The counting loop of \<open>generate_report\<close> in \<open>euro-scraper.py\<close> and
  \<open>asia-scraper.py\<close>; the articles come from the output file, where every record has a
  country and a language.
\<close>

fun count_regional :: "article list \<Rightarrow> report \<times> nat \<Rightarrow> report \<times> nat" where
  "count_regional [] acc = acc"
| "count_regional (a # rest) (rep, tcl) =
     count_regional rest
       (rep\<lparr>by_source := bump (art_source a) (by_source rep),
            by_country :=
              (let c = (case art_country a of None \<Rightarrow> [] | Some c \<Rightarrow> c)
               in if c \<noteq> [] then map_option (bump c) (by_country rep) else by_country rep),
            by_category := bump_known (art_category a) (by_category rep),
            by_language :=
              map_option (bump_known (case language a of None \<Rightarrow> ''en'' | Some l \<Rightarrow> l))
                (by_language rep)\<rparr>,
        tcl + content_length a)"

text \<open>
  \<open>generate_report\<close> of \<open>EuropeNewsScraper\<close> and \<open>AsiaNewsScraper\<close>, which differ in
  the initial category and language counters. Any exception makes the method return
  \<open>None\<close>: the output file cannot be read, or it does not hold a list of articles, or
  the division fails.
\<close>

definition generate_report_regional ::
  "(string \<times> nat) list \<Rightarrow> (string \<times> nat) list \<Rightarrow> clock \<Rightarrow> string \<Rightarrow> filesystem
     \<Rightarrow> report option \<times> filesystem" where
  "generate_report_regional categories languages clk output_file fs =
     (case map_of (files fs) output_file of
        Some (ArticlesDoc articles) \<Rightarrow>
          (let rep0 = \<lparr>total_articles = length articles, by_source = [],
                       by_region = None, by_country = Some [],
                       by_category = categories, by_language = Some languages,
                       average_content_length = 0, timeframe = None,
                       report_scraped_at = Some (isonow clk)\<rparr>;
               (rep1, total_content_length) = count_regional articles (rep0, 0)
           in case (if articles \<noteq> []
                    then (case truediv total_content_length (length articles) of
                            Inl e \<Rightarrow> Inl e
                          | Inr q \<Rightarrow> Inr (rep1\<lparr>average_content_length := q\<rparr>))
                    else Inr rep1) of
                Inl e \<Rightarrow> (None, fs)
              | Inr rep \<Rightarrow>
                  (Some rep,
                   (case write_file (replace_json output_file) (ReportDoc rep) fs of
                      Some fs' \<Rightarrow> fs' | None \<Rightarrow> fs)))
      | _ \<Rightarrow> (None, fs))"

definition generate_report_euro ::
  "clock \<Rightarrow> string \<Rightarrow> filesystem \<Rightarrow> report option \<times> filesystem" where
  "generate_report_euro =
     generate_report_regional
       [(''technology'', 0), (''business'', 0), (''investing'', 0)]
       [(''en'', 0), (''de'', 0), (''fr'', 0), (''es'', 0)]"

definition generate_report_asia ::
  "clock \<Rightarrow> string \<Rightarrow> filesystem \<Rightarrow> report option \<times> filesystem" where
  "generate_report_asia =
     generate_report_regional
       [(''technology'', 0), (''business'', 0)]
       [(''en'', 0), (''zh'', 0), (''ja'', 0), (''ko'', 0)]"

section \<open>The per-article files of the US scraper\<close>

text \<open>
  The character classes of \<open>re\<close> on the characters below U+0080: \<open>\w\<close> is a letter, a
  digit or the underscore, \<open>\s\<close> is white space.
\<close>

definition is_word :: "char \<Rightarrow> bool" where
  "is_word c =
     (let k = (of_char c :: nat)
      in (48 \<le> k \<and> k \<le> 57) \<or> (65 \<le> k \<and> k \<le> 90) \<or> k = 95 \<or> (97 \<le> k \<and> k \<le> 122))"

definition lower :: "char \<Rightarrow> char" where
  "lower c =
     (let k = (of_char c :: nat) in if 65 \<le> k \<and> k \<le> 90 then char_of (k + 32) else c)"

text \<open>\<open>re.sub(r'[-\s]+', '-', s)\<close>\<close>

function collapse_dashes :: "string \<Rightarrow> string" where
  "collapse_dashes [] = []"
| "collapse_dashes (c # cs) =
     (if c = CHR ''-'' \<or> is_space c
      then CHR ''-'' # collapse_dashes (dropWhile (\<lambda>x. x = CHR ''-'' \<or> is_space x) cs)
      else c # collapse_dashes cs)"
  by pat_completeness auto
termination
  by (relation "measure length") (auto simp: length_dropWhile_le less_Suc_eq_le)

text \<open>\<open>USNewsScraper.generate_safe_filename\<close>\<close>

definition generate_safe_filename :: "clock \<Rightarrow> string \<Rightarrow> string" where
  "generate_safe_filename clk ttl =
     (let safe_title =
            map lower
              (strip (filter (\<lambda>c. is_word c \<or> is_space c \<or> c = CHR ''-'') ttl));
          safe_title = collapse_dashes safe_title;
          safe_title = (if length safe_title > 50 then take 50 safe_title else safe_title)
      in safe_title @ ''-'' @ compact clk)"

text \<open>
  \<open>USNewsScraper.save_article_to_json\<close>: the path written, or \<open>None\<close> after an
  exception.
\<close>

definition save_article_to_json ::
  "string \<Rightarrow> clock \<Rightarrow> article \<Rightarrow> filesystem \<Rightarrow> string option \<times> filesystem" where
  "save_article_to_json articles_dir clk a d =
     (let filepath = path_join articles_dir (generate_safe_filename clk (title a) @ ''.json'')
      in case write_file filepath (ArticleDoc a) d of
           Some d' \<Rightarrow> (Some filepath, d') | None \<Rightarrow> (None, d))"

text \<open>
  \<open>USNewsScraper.summarize_with_openai\<close>, called with a key at hand. The completion
  service is an oracle from the prompt to the text it answers, \<open>None\<close> when the call
  raises; the method then returns a dictionary with the key \<open>error\<close>, here \<open>None\<close>.
\<close>

definition summarize_with_openai ::
  "(string \<Rightarrow> string option) \<Rightarrow> clock \<Rightarrow> article \<Rightarrow> summary option" where
  "summarize_with_openai ask clk a =
     (let truncated_content =
            (if length (content a) > 4000 then take 4000 (content a) @ ''...''
             else content a);
          prompt = ''Please provide a concise summary of this article titled '' @ [CHR 0x27]
                     @ title a @ [CHR 0x27] @ '':'' @ [CHR 0x0A, CHR 0x0A]
                     @ truncated_content
      in case ask prompt of
           None \<Rightarrow> None
         | Some answer \<Rightarrow>
             Some \<lparr>article_title = title a, article_source = art_source a,
                   article_url = art_url a, article_date = date a,
                   summary_text = strip answer,
                   summary_generated_at = isonow clk\<rparr>)"

text \<open>The first component of \<open>os.path.splitext\<close> on a file name without directory.\<close>

definition splitext_root :: "string \<Rightarrow> string" where
  "splitext_root b =
     (let before_dot = rev (tl (dropWhile (\<lambda>c. c \<noteq> CHR ''.'') (rev b)))
      in if CHR ''.'' \<in> set b \<and> list_ex (\<lambda>c. c \<noteq> CHR ''.'') before_dot then before_dot
         else b)"

text \<open>\<open>USNewsScraper.save_summary_to_json\<close>\<close>

definition save_summary_to_json ::
  "string \<Rightarrow> summary \<Rightarrow> string \<Rightarrow> filesystem \<Rightarrow> filesystem" where
  "save_summary_to_json summaries_dir summary_data article_filename d =
     (let base_filename = splitext_root (basename article_filename);
          filepath = path_join summaries_dir (base_filename @ ''_summary.json'')
      in case write_file filepath (SummaryDoc summary_data) d of
           Some d' \<Rightarrow> d' | None \<Rightarrow> d)"

text \<open>
  What \<open>USNewsScraper.run\<close> does with an accepted record before it appends it: the
  article goes to a file of its own and, when there is an API key and the file was
  written, so does its summary.
\<close>

definition store_us ::
  "string \<Rightarrow> string option \<Rightarrow> (string \<Rightarrow> string option) \<Rightarrow> clock \<Rightarrow> article \<Rightarrow> filesystem
     \<Rightarrow> filesystem" where
  "store_us output_dir openai_api_key ask clk a d =
     (let (article_file, d1) =
            save_article_to_json (path_join output_dir ''articles'') clk a d
      in case article_file of
           None \<Rightarrow> d1
         | Some f \<Rightarrow>
             if openai_api_key \<noteq> None \<and> openai_api_key \<noteq> Some []
             then (case summarize_with_openai ask clk a of
                     None \<Rightarrow> d1
                   | Some summary_data \<Rightarrow>
                       save_summary_to_json (path_join output_dir ''summaries'')
                         summary_data f d1)
             else d1)"

text \<open>
  \<open>os.listdir(d)\<close>: the names of the files and directories directly in \<open>d\<close>; \<open>None\<close>
  when \<open>d\<close> is not a directory.
\<close>

definition listdir :: "filesystem \<Rightarrow> string \<Rightarrow> string list option" where
  "listdir d p =
     (if is_dir d p
      then Some (map basename (filter (\<lambda>q. dirname q = p \<and> basename q \<noteq> [])
                                 (map fst (files d) @ dirs d)))
      else None)"

text \<open>\<open>json.load\<close> of each listed file; \<open>None\<close> when one cannot be opened.\<close>

fun load_all :: "filesystem \<Rightarrow> string \<Rightarrow> string list \<Rightarrow> document list option" where
  "load_all d p [] = Some []"
| "load_all d p (f # rest) =
     (case map_of (files d) (path_join p f) of
        None \<Rightarrow> None
      | Some doc \<Rightarrow> (case load_all d p rest of None \<Rightarrow> None | Some docs \<Rightarrow> Some (doc # docs)))"

text \<open>
  The counting loop of \<open>USNewsScraper.generate_report\<close>. A loaded document that is not
  an article object has no usable key \<open>source\<close>: the loop raises (\<open>None\<close>).
\<close>

fun count_us :: "document list \<Rightarrow> report \<times> nat \<Rightarrow> (report \<times> nat) option" where
  "count_us [] acc = Some acc"
| "count_us (ArticleDoc a # rest) (rep, tcl) =
     count_us rest
       (rep\<lparr>by_source := bump (art_source a) (by_source rep),
            by_category := bump_known (art_category a) (by_category rep)\<rparr>,
        tcl + content_length a)"
| "count_us (other # rest) acc = None"

text \<open>\<open>USNewsScraper.generate_report\<close>\<close>

definition generate_report_us ::
  "clock \<Rightarrow> string \<Rightarrow> filesystem \<Rightarrow> report option \<times> filesystem" where
  "generate_report_us clk output_dir d =
     (let articles_dir = path_join output_dir ''articles''
      in case listdir d articles_dir of
           None \<Rightarrow> (None, d)
         | Some names \<Rightarrow>
             (case load_all d articles_dir (filter (\<lambda>f. endswith f ''.json'') names) of
                None \<Rightarrow> (None, d)
              | Some articles \<Rightarrow>
                  (let rep0 = \<lparr>total_articles = length articles, by_source = [],
                               by_region = None, by_country = None,
                               by_category = [(''technology'', 0), (''business'', 0),
                                              (''investing'', 0)],
                               by_language = None, average_content_length = 0,
                               timeframe = None, report_scraped_at = Some (isonow clk)\<rparr>
                   in case count_us articles (rep0, 0) of
                        None \<Rightarrow> (None, d)
                      | Some (rep1, total_content_length) \<Rightarrow>
                          (case (if articles \<noteq> []
                                 then (case truediv total_content_length (length articles) of
                                         Inl e \<Rightarrow> Inl e
                                       | Inr q \<Rightarrow> Inr (rep1\<lparr>average_content_length := q\<rparr>))
                                 else Inr rep1) of
                             Inl e \<Rightarrow> (None, d)
                           | Inr rep \<Rightarrow>
                               (Some rep,
                                (case write_file (path_join output_dir ''scraping_report.json'')
                                        (ReportDoc rep) d of
                                   Some d' \<Rightarrow> d' | None \<Rightarrow> d))))))"

section \<open>The run loop\<close>

text \<open>
  The world outside the program: the selector engine, the response to the \<open>n\<close>-th
  request of the run for a URL, the clock at the time of the \<open>n\<close>-th request, and the
  completion service.
\<close>

record world =
  engine :: selector_engine
  web :: "nat \<Rightarrow> string \<Rightarrow> response option"
  clock_at :: "nat \<Rightarrow> clock"
  completion :: "string \<Rightarrow> string option"

text \<open>
  The argument of a \<open>time.sleep\<close>: the whole seconds of a backoff, or the random delay
  \<open>1.5 + random.random() * 2\<close> between two articles.
\<close>

datatype pause = Secs int | Jitter

text \<open>
  The state of \<open>run\<close>: the requests made so far, the sleeps so far, the local variables
  \<open>article_links\<close> (\<open>None\<close> while it is unbound) and \<open>all_articles\<close>, and the files.
\<close>

record run_state =
  requests :: nat
  pauses :: "pause list"
  article_links :: "string list option"
  all_articles :: "article list"
  disk :: filesystem

text \<open>
  The four \<open>run\<close> methods share the text of their loops. They differ in the methods
  they call, in the test that accepts a scraped record, in what is done with an
  accepted record before it is appended, and in the save after each source.
\<close>

record variant =
  get_article_links :: "selector_engine \<Rightarrow> response option \<Rightarrow> source \<Rightarrow> string list"
  scrape_article :: "selector_engine \<Rightarrow> clock \<Rightarrow> response option \<Rightarrow> string \<Rightarrow> source
                       \<Rightarrow> article option"
  accepts :: "article \<Rightarrow> bool"
  store :: "world \<Rightarrow> clock \<Rightarrow> article \<Rightarrow> filesystem \<Rightarrow> filesystem"
  save_after_source :: "article list \<Rightarrow> filesystem \<Rightarrow> filesystem"

text \<open>\<open>if article_data:\<close> in \<open>ArticleScraper.run\<close>: a returned record is never empty.\<close>

definition general_variant :: "string \<Rightarrow> variant" where
  "general_variant output_file =
     \<lparr>get_article_links = get_article_links_general,
      scrape_article = scrape_article_general,
      accepts = (\<lambda>a. True),
      store = (\<lambda>w clk a d. d),
      save_after_source = save_to_json_general output_file\<rparr>"

definition us_variant :: "string \<Rightarrow> string option \<Rightarrow> variant" where
  "us_variant output_dir openai_api_key =
     \<lparr>get_article_links = get_article_links_regional,
      scrape_article = scrape_article_us,
      accepts = (\<lambda>a. title a \<noteq> [] \<and> content a \<noteq> ''Content not found''),
      store = (\<lambda>w. store_us output_dir openai_api_key (completion w)),
      save_after_source = (\<lambda>articles d. d)\<rparr>"

definition euro_variant :: "string \<Rightarrow> variant" where
  "euro_variant output_file =
     \<lparr>get_article_links = get_article_links_regional,
      scrape_article = scrape_article_euro,
      accepts = (\<lambda>a. title a \<noteq> ''Title not found'' \<and> content a \<noteq> ''Content not found''),
      store = (\<lambda>w clk a d. d),
      save_after_source = save_to_json_regional output_file\<rparr>"

definition asia_variant :: "string \<Rightarrow> variant" where
  "asia_variant output_file =
     \<lparr>get_article_links = get_article_links_regional,
      scrape_article = scrape_article_asia,
      accepts = (\<lambda>a. title a \<noteq> ''Title not found'' \<and> content a \<noteq> ''Content not found''),
      store = (\<lambda>w clk a d. d),
      save_after_source = save_to_json_regional output_file\<rparr>"

text \<open>
  The retry loop around \<open>get_article_links\<close>, over the attempts that remain of
  \<open>range(self.retry_attempts)\<close>. The method catches every exception itself, so the
  \<open>except\<close> branch of the loop is never taken.
\<close>

fun link_attempts :: "variant \<Rightarrow> world \<Rightarrow> int \<Rightarrow> source \<Rightarrow> nat list \<Rightarrow> run_state \<Rightarrow> run_state"
  where
  "link_attempts v w N src [] s = s"
| "link_attempts v w N src (attempt # rest) s =
     (let links = get_article_links v (engine w) (web w (requests s) (url src)) src;
          s1 = s\<lparr>requests := requests s + 1, article_links := Some links\<rparr>
      in if links \<noteq> [] then s1
         else link_attempts v w N src rest
                (if int attempt < N - 1
                 then s1\<lparr>pauses := pauses s1 @ [Secs (3 + int attempt * 2)]\<rparr>
                 else s1))"

text \<open>
  The retry loop around \<open>scrape_article\<close> for one link. \<open>scrape_article\<close> and the
  methods that store an accepted record catch every exception themselves.
\<close>

fun article_attempts ::
  "variant \<Rightarrow> world \<Rightarrow> int \<Rightarrow> source \<Rightarrow> string \<Rightarrow> nat list \<Rightarrow> run_state \<Rightarrow> run_state" where
  "article_attempts v w N src link [] s = s"
| "article_attempts v w N src link (attempt # rest) s =
     (let clk = clock_at w (requests s);
          article_data = scrape_article v (engine w) clk (web w (requests s) link) link src;
          s1 = s\<lparr>requests := requests s + 1\<rparr>;
          failed = article_attempts v w N src link rest
                     (if int attempt < N - 1
                      then s1\<lparr>pauses := pauses s1 @ [Secs (2 + int attempt)]\<rparr>
                      else s1)
      in case article_data of
           None \<Rightarrow> failed
         | Some a \<Rightarrow>
             if accepts v a
             then s1\<lparr>disk := store v w clk a (disk s1),
                     all_articles := all_articles s1 @ [a]\<rparr>
             else failed)"

text \<open>The loop over the links of one source, with the random delay before each.\<close>

fun links_loop :: "variant \<Rightarrow> world \<Rightarrow> int \<Rightarrow> source \<Rightarrow> string list \<Rightarrow> run_state \<Rightarrow> run_state"
  where
  "links_loop v w N src [] s = s"
| "links_loop v w N src (link # rest) s =
     links_loop v w N src rest
       (article_attempts v w N src link [0..<nat N] (s\<lparr>pauses := pauses s @ [Jitter]\<rparr>))"

text \<open>
  One pass of the loop over the sources. With no attempt at all the variable
  \<open>article_links\<close> may be unbound when the loop over the links reads it.
\<close>

definition process_source ::
  "variant \<Rightarrow> world \<Rightarrow> int \<Rightarrow> source \<Rightarrow> run_state \<Rightarrow> py_error + run_state" where
  "process_source v w N src s =
     (let s1 = link_attempts v w N src [0..<nat N] s
      in case article_links s1 of
           None \<Rightarrow> Inl NameError
         | Some links \<Rightarrow>
             (let s2 = links_loop v w N src links s1
              in Inr (s2\<lparr>disk := save_after_source v (all_articles s2) (disk s2)\<rparr>)))"

fun sources_loop ::
  "variant \<Rightarrow> world \<Rightarrow> int \<Rightarrow> source list \<Rightarrow> run_state \<Rightarrow> py_error + run_state" where
  "sources_loop v w N [] s = Inr s"
| "sources_loop v w N (src # rest) s =
     (case process_source v w N src s of
        Inl e \<Rightarrow> Inl e
      | Inr s' \<Rightarrow> sources_loop v w N rest s')"

definition initial_state :: "filesystem \<Rightarrow> run_state" where
  "initial_state d =
     \<lparr>requests = 0, pauses = [], article_links = None, all_articles = [], disk = d\<rparr>"

text \<open>\<open>ArticleScraper.run\<close>, with the final save.\<close>

definition run_general ::
  "world \<Rightarrow> int \<Rightarrow> string \<Rightarrow> source list \<Rightarrow> filesystem \<Rightarrow> py_error + run_state" where
  "run_general w N output_file srcs d =
     (case sources_loop (general_variant output_file) w N srcs (initial_state d) of
        Inl e \<Rightarrow> Inl e
      | Inr s \<Rightarrow>
          Inr (s\<lparr>disk := save_to_json_general output_file (all_articles s) (disk s)\<rparr>))"

text \<open>
  \<open>EuropeNewsScraper.run\<close> and \<open>AsiaNewsScraper.run\<close>: the final save, then the report
  from the saved file.
\<close>

definition run_euro ::
  "world \<Rightarrow> int \<Rightarrow> string \<Rightarrow> source list \<Rightarrow> filesystem \<Rightarrow> py_error + run_state" where
  "run_euro w N output_file srcs d =
     (case sources_loop (euro_variant output_file) w N srcs (initial_state d) of
        Inl e \<Rightarrow> Inl e
      | Inr s \<Rightarrow>
          (let d1 = save_to_json_regional output_file (all_articles s) (disk s)
           in Inr (s\<lparr>disk := snd (generate_report_euro (clock_at w (requests s))
                                     output_file d1)\<rparr>)))"

definition run_asia ::
  "world \<Rightarrow> int \<Rightarrow> string \<Rightarrow> source list \<Rightarrow> filesystem \<Rightarrow> py_error + run_state" where
  "run_asia w N output_file srcs d =
     (case sources_loop (asia_variant output_file) w N srcs (initial_state d) of
        Inl e \<Rightarrow> Inl e
      | Inr s \<Rightarrow>
          (let d1 = save_to_json_regional output_file (all_articles s) (disk s)
           in Inr (s\<lparr>disk := snd (generate_report_asia (clock_at w (requests s))
                                     output_file d1)\<rparr>)))"


definition run_us ::
  "world \<Rightarrow> int \<Rightarrow> string \<Rightarrow> string option \<Rightarrow> source list \<Rightarrow> filesystem
     \<Rightarrow> py_error + run_state" where
  "run_us w N output_dir openai_api_key srcs d =
     (case sources_loop (us_variant output_dir openai_api_key) w N srcs (initial_state d) of
        Inl e \<Rightarrow> Inl e
      | Inr s \<Rightarrow>
          Inr (s\<lparr>disk := snd (generate_report_us (clock_at w (requests s)) output_dir
                                (disk s))\<rparr>))"

section \<open>Clustering by theme\<close>

text \<open>What \<open>json.loads\<close> returns. A float may be infinite or not a number.\<close>

datatype pyfloat = Finite rat | PosInf | NegInf | NaN

datatype json =
    JNull
  | JBool bool
  | JInt int
  | JFloat pyfloat
  | JStr string
  | JArr "json list"
  | JObj "(string \<times> json) list"

text \<open>\<open>len(v)\<close>; \<open>None\<close> stands for the \<open>TypeError\<close>.\<close>

fun py_len :: "json \<Rightarrow> nat option" where
  "py_len (JStr s) = Some (length s)"
| "py_len (JArr xs) = Some (length xs)"
| "py_len (JObj kvs) = Some (length kvs)"
| "py_len v = None"

text \<open>
  The values that \<open>for x in v\<close> runs through: the elements of a list, the characters
  of a string, the keys of an object; \<open>None\<close> stands for the \<open>TypeError\<close>.
\<close>

fun py_iter :: "json \<Rightarrow> json list option" where
  "py_iter (JArr xs) = Some xs"
| "py_iter (JStr s) = Some (map (\<lambda>c. JStr [c]) s)"
| "py_iter (JObj kvs) = Some (map (\<lambda>kv. JStr (fst kv)) kvs)"
| "py_iter v = None"

text \<open>\<open>v.get(key, default)\<close>; only an object has the method (\<open>AttributeError\<close>).\<close>

fun py_get :: "json \<Rightarrow> string \<Rightarrow> json \<Rightarrow> json option" where
  "py_get (JObj kvs) k dflt = Some (case map_of kvs k of Some x \<Rightarrow> x | None \<Rightarrow> dflt)"
| "py_get v k dflt = None"

text \<open>
  \<open>0 <= article_id < n\<close>; a number compares with the integers, a boolean counts as 0
  or 1, and any other value raises a \<open>TypeError\<close> (\<open>None\<close>).
\<close>

fun in_range :: "json \<Rightarrow> nat \<Rightarrow> bool option" where
  "in_range (JInt i) n = Some (0 \<le> i \<and> i < int n)"
| "in_range (JBool b) n = Some ((if b then 1 else 0) < n)"
| "in_range (JFloat (Finite q)) n = Some (0 \<le> q \<and> q < of_nat n)"
| "in_range (JFloat PosInf) n = Some False"
| "in_range (JFloat NegInf) n = Some False"
| "in_range (JFloat NaN) n = Some False"
| "in_range v n = None"

text \<open>The integer a value stands for as a list index; a float is no index.\<close>

fun as_index :: "json \<Rightarrow> int option" where
  "as_index (JInt i) = Some i"
| "as_index (JBool b) = Some (if b then 1 else 0)"
| "as_index v = None"

text \<open>
  \<open>xs[i]\<close> on a list of length \<open>n\<close>: the indices \<open>-n..-1\<close> count from the end, and an
  index outside \<open>-n..n-1\<close> raises.
\<close>

definition getitem :: "'a list \<Rightarrow> int \<Rightarrow> py_error + 'a" where
  "getitem xs i =
     (if 0 \<le> i \<and> i < int (length xs) then Inr (xs ! nat i)
      else if - int (length xs) \<le> i \<and> i < 0 then Inr (xs ! nat (int (length xs) + i))
      else Inl IndexError)"

text \<open>An entry of \<open>article_metadata\<close>, as \<open>extract_article_metadata\<close> builds it.\<close>

record metadata =
  md_title :: json
  md_source :: json
  md_category :: json
  md_date :: json
  md_description :: json
  md_content_length :: json
  content_snippet :: string
  full_article :: json

text \<open>The truth value of a JSON value in a condition.\<close>

fun truthy :: "json \<Rightarrow> bool" where
  "truthy JNull = False"
| "truthy (JBool b) = b"
| "truthy (JInt i) = (i \<noteq> 0)"
| "truthy (JFloat (Finite q)) = (q \<noteq> 0)"
| "truthy (JFloat f) = True"
| "truthy (JStr s) = (s \<noteq> [])"
| "truthy (JArr xs) = (xs \<noteq> [])"
| "truthy (JObj kvs) = (kvs \<noteq> [])"

text \<open>
  \<open>c[:500] + "..." if c else ''\<close>, for \<open>c = article.get('content', '')\<close>: only a string
  can be sliced and extended by a string.
\<close>

fun snippet_of :: "json \<Rightarrow> py_error + string" where
  "snippet_of (JStr s) = Inr (if s \<noteq> [] then take 500 s @ ''...'' else [])"
| "snippet_of c = (if truthy c then Inl TypeError else Inr [])"

text \<open>
  \<open>ArticleClusteringTool.extract_article_metadata\<close>; an exception of the loop escapes
  the method.
\<close>

fun extract_article_metadata :: "json list \<Rightarrow> py_error + metadata list" where
  "extract_article_metadata [] = Inr []"
| "extract_article_metadata (article # rest) =
     (case (py_get article ''title'' (JStr []), py_get article ''source'' (JStr []),
            py_get article ''category'' (JStr []), py_get article ''date'' (JStr []),
            py_get article ''description'' (JStr []),
            py_get article ''content_length'' (JInt 0),
            py_get article ''content'' (JStr [])) of
        (Some t, Some s, Some c, Some d, Some ds, Some cl, Some ct) \<Rightarrow>
          (case snippet_of ct of
             Inl e \<Rightarrow> Inl e
           | Inr sn \<Rightarrow>
               (case extract_article_metadata rest of
                  Inl e \<Rightarrow> Inl e
                | Inr ms \<Rightarrow>
                    Inr (\<lparr>md_title = t, md_source = s, md_category = c, md_date = d,
                          md_description = ds, md_content_length = cl,
                          content_snippet = sn, full_article = article\<rparr> # ms)))
      | _ \<Rightarrow> Inl AttributeError)"

record theme_data =
  theme_name :: json
  theme_description :: json
  articles :: "json list"

record clustered_data =
  themes :: "theme_data list"
  metadata_total_articles :: nat
  clustering_timestamp :: string

text \<open>The loop over \<open>theme.get('article_ids', [])\<close>.\<close>

fun collect_articles :: "metadata list \<Rightarrow> json list \<Rightarrow> json list \<Rightarrow> py_error + json list" where
  "collect_articles md [] acc = Inr acc"
| "collect_articles md (article_id # rest) acc =
     (case in_range article_id (length md) of
        None \<Rightarrow> Inl TypeError
      | Some False \<Rightarrow> collect_articles md rest acc
      | Some True \<Rightarrow>
          (case as_index article_id of
             None \<Rightarrow> Inl TypeError
           | Some i \<Rightarrow>
               (case getitem md i of
                  Inl e \<Rightarrow> Inl e
                | Inr m \<Rightarrow> collect_articles md rest (acc @ [full_article m]))))"

text \<open>The loop over the themes of the response.\<close>

fun map_themes :: "metadata list \<Rightarrow> json list \<Rightarrow> theme_data list \<Rightarrow> py_error + theme_data list"
  where
  "map_themes md [] acc = Inr acc"
| "map_themes md (theme # rest) acc =
     (case py_get theme ''name'' (JStr ''Unnamed Theme'') of
        None \<Rightarrow> Inl AttributeError
      | Some nm \<Rightarrow>
          (case py_get theme ''description'' (JStr []) of
             None \<Rightarrow> Inl AttributeError
           | Some ds \<Rightarrow>
               (case py_get theme ''article_ids'' (JArr []) of
                  None \<Rightarrow> Inl AttributeError
                | Some ids \<Rightarrow>
                    (case py_iter ids of
                       None \<Rightarrow> Inl TypeError
                     | Some id_list \<Rightarrow>
                         (case collect_articles md id_list [] of
                            Inl e \<Rightarrow> Inl e
                          | Inr arts \<Rightarrow>
                              map_themes md rest
                                (if arts \<noteq> []
                                 then acc @ [\<lparr>theme_name = nm, theme_description = ds,
                                              articles = arts\<rparr>]
                                 else acc))))))"

text \<open>
  \<open>ArticleClusteringTool.cluster_articles_by_theme\<close>. The answer of the completion
  service, parsed by \<open>json.loads\<close>, is a parameter: \<open>None\<close> when the call raises or the
  text is not JSON. Every exception makes the method return \<open>None\<close>.
\<close>

definition cluster_articles_by_theme ::
  "bool \<Rightarrow> json option \<Rightarrow> string \<Rightarrow> metadata list \<Rightarrow> clustered_data option" where
  "cluster_articles_by_theme client_ready reply now article_metadata =
     (if \<not> client_ready then None
      else case reply of
        None \<Rightarrow> None
      | Some result \<Rightarrow>
          (case py_get result ''themes'' (JArr []) of
             None \<Rightarrow> None
           | Some ts \<Rightarrow>
               (case py_len ts of
                  None \<Rightarrow> None
                | Some n \<Rightarrow>
                    (case py_iter ts of
                       None \<Rightarrow> None
                     | Some theme_list \<Rightarrow>
                         (case map_themes article_metadata theme_list [] of
                            Inl e \<Rightarrow> None
                          | Inr ths \<Rightarrow>
                              Some \<lparr>themes = ths,
                                    metadata_total_articles = length article_metadata,
                                    clustering_timestamp = now\<rparr>)))))"

section \<open>Notions used in the statements\<close>

text \<open>
  The outcome of the attempt with index \<open>i\<close> of a retry loop that starts in state \<open>s\<close>:
  the links found, and the record scraped.
\<close>

definition links_at :: "variant \<Rightarrow> world \<Rightarrow> source \<Rightarrow> run_state \<Rightarrow> nat \<Rightarrow> string list" where
  "links_at v w src s i =
     get_article_links v (engine w) (web w (requests s + i) (url src)) src"

definition scraped_at_attempt ::
  "variant \<Rightarrow> world \<Rightarrow> source \<Rightarrow> string \<Rightarrow> run_state \<Rightarrow> nat \<Rightarrow> article option" where
  "scraped_at_attempt v w src link s i =
     scrape_article v (engine w) (clock_at w (requests s + i))
       (web w (requests s + i) link) link src"

definition attempt_ok :: "variant \<Rightarrow> article option \<Rightarrow> bool" where
  "attempt_ok v r = (case r of None \<Rightarrow> False | Some a \<Rightarrow> accepts v a)"

text \<open>The backoff of the specification after the failed attempt with index \<open>k\<close>.\<close>

definition source_backoff :: "nat \<Rightarrow> pause" where
  "source_backoff k = Secs (3 + 2 * int k)"

definition article_backoff :: "nat \<Rightarrow> pause" where
  "article_backoff k = Secs (2 + int k)"

text \<open>A record bears a sentinel when its title or its content is the placeholder.\<close>

definition bears_sentinel :: "article \<Rightarrow> bool" where
  "bears_sentinel a = (title a = ''Title not found'' \<or> content a = ''Content not found'')"

text \<open>
  A file can be opened for writing at a path when the last component of the path is not
  empty, the path is not a directory and its directory exists. Nothing is in the way of
  a file at a path when, instead of the last condition, neither the directory of the
  path nor an ancestor of it is a file.
\<close>

definition openable :: "filesystem \<Rightarrow> string \<Rightarrow> bool" where
  "openable d p = (basename p \<noteq> [] \<and> \<not> is_dir d p \<and> (dirname p = [] \<or> is_dir d (dirname p)))"

definition free_path :: "filesystem \<Rightarrow> string \<Rightarrow> bool" where
  "free_path d p =
     (basename p \<noteq> [] \<and> \<not> is_dir d p \<and> \<not> is_file d (dirname p) \<and>
      \<not> list_ex (is_file d) (ancestors_from [] (dirname p)))"

text \<open>
  The positions that a list of ids selects among \<open>n\<close> articles: the ids that are
  integers \<open>i\<close> with \<open>0 <= i < n\<close>, in their order.
\<close>

definition selected_positions :: "nat \<Rightarrow> json list \<Rightarrow> nat list" where
  "selected_positions n ids =
     List.map_filter
       (\<lambda>x. case as_index x of
               Some i \<Rightarrow> if 0 \<le> i \<and> i < int n then Some (nat i) else None
             | None \<Rightarrow> None) ids"

text \<open>
  A theme of the clustered data is sound when it has an article and all its articles
  are loaded ones.
\<close>

definition sound_theme :: "metadata list \<Rightarrow> theme_data \<Rightarrow> bool" where
  "sound_theme md t = (articles t \<noteq> [] \<and> set (articles t) \<subseteq> full_article ` set md)"

text \<open>A record is produced by \<open>scrape_article\<close> when one of the four variants returns it.\<close>

definition produced ::
  "selector_engine \<Rightarrow> clock \<Rightarrow> response option \<Rightarrow> string \<Rightarrow> source \<Rightarrow> article \<Rightarrow> bool" where
  "produced css clk resp link src a =
     (scrape_article_general css clk resp link src = Some a \<or>
      scrape_article_us css clk resp link src = Some a \<or>
      scrape_article_euro css clk resp link src = Some a \<or>
      scrape_article_asia css clk resp link src = Some a)"



section \<open>Example inputs\<close>

text \<open>
  A small selector engine for the examples: it knows type selectors (a bare tag name)
  and the selector of the description element, and matches nothing for any other
  selector.
\<close>

definition type_selectors :: selector_engine where
  "type_selectors sel t =
     (if sel = description_selector
      then filter (\<lambda>m. get_attr m ''name'' = Some ''description'') (find_all ''meta'' t)
      else find_all sel t)"

definition example_source :: source where
  "example_source =
     \<lparr>name = ''Example'', url = ''https://example.com/'', article_selector = ''article'',
      title_selector = ''h1'', content_selector = ''section'', date_selector = ''time'',
      category = ''technology'', region = ''asia'', country = Some ''japan''\<rparr>"

definition example_clock :: clock where
  "example_clock =
     \<lparr>today = ''2024-05-01'', isonow = ''2024-05-01T12:00:00'',
      compact = ''20240501120000''\<rparr>"

definition next_day_clock :: clock where
  "next_day_clock =
     \<lparr>today = ''2024-05-02'', isonow = ''2024-05-02T12:00:00'',
      compact = ''20240502120000''\<rparr>"

text \<open>A response with status 200 whose document is \<open><html><body>...</body></html>\<close>.\<close>

definition page :: "node list \<Rightarrow> response" where
  "page elems = \<lparr>status_code = 200, soup = Tag ''html'' [] [Tag ''body'' [] elems]\<rparr>"

definition three_paragraphs :: node where
  "three_paragraphs =
     Tag ''section'' []
       [Tag ''p'' [] [NavigableString ''A.''], Tag ''p'' [] [NavigableString ''B.''],
        Tag ''p'' [] [NavigableString ''C.'']]"

text \<open>A homepage with one article container whose anchor has the given \<open>href\<close>.\<close>

definition listing :: "string \<Rightarrow> response" where
  "listing href =
     page [Tag ''article'' [] [Tag ''a'' [(''href'', href)] [NavigableString ''Headline'']]]"

text \<open>An article page with a title and a body.\<close>

definition story :: response where
  "story = page [Tag ''h1'' [] [NavigableString ''Headline''], three_paragraphs]"

definition empty_disk :: filesystem where
  "empty_disk = \<lparr>dirs = [], files = []\<rparr>"

text \<open>
  A world in which the homepage of the example source answers with \<open>home\<close> and every
  other URL with \<open>other\<close>, from the request with index \<open>first\<close> on; earlier requests
  fail.
\<close>

definition example_world :: "nat \<Rightarrow> response \<Rightarrow> response \<Rightarrow> world" where
  "example_world first home other =
     \<lparr>engine = type_selectors,
      web = (\<lambda>n u. if n < first then None
                    else if u = ''https://example.com/'' then Some home else Some other),
      clock_at = (\<lambda>n. example_clock),
      completion = (\<lambda>prompt. None)\<rparr>"

text \<open>What the variants extract from \<open>story\<close>, and from a page without any element.\<close>

definition story_record :: "string \<Rightarrow> article" where
  "story_record link =
     \<lparr>art_source = ''Example'', art_category = ''technology'',
      art_region = Some ''asia'', art_country = Some ''japan'', art_url = link,
      title = ''Headline'', author = ''Author not found'', description = [],
      content = ''A. B. C.'', date = ''2024-05-01'', content_length = 8,
      language = Some ''ja'', scraped_at = ''2024-05-01T12:00:00''\<rparr>"

definition placeholder_record :: "string \<Rightarrow> article" where
  "placeholder_record link =
     \<lparr>art_source = ''Example'', art_category = ''technology'',
      art_region = None, art_country = None, art_url = link,
      title = ''Title not found'', author = ''Author not found'', description = [],
      content = ''Content not found'', date = ''2024-05-01'', content_length = 17,
      language = None, scraped_at = ''2024-05-01T12:00:00''\<rparr>"

text \<open>The directories that \<open>USNewsScraper.__init__\<close> creates for the output \<open>out\<close>.\<close>

definition us_disk :: filesystem where
  "us_disk = \<lparr>dirs = [''out'', ''out/articles'', ''out/summaries''], files = []\<rparr>"


text \<open>Two loaded articles, their metadata, and a response with two themes.\<close>

definition example_loaded :: "json list" where
  "example_loaded = [JObj [(''title'', JStr ''First'')], JObj [(''title'', JStr ''Second'')]]"

definition example_metadata :: "metadata list" where
  "example_metadata =
     [\<lparr>md_title = JStr ''First'', md_source = JStr [], md_category = JStr [],
       md_date = JStr [], md_description = JStr [], md_content_length = JInt 0,
       content_snippet = [], full_article = JObj [(''title'', JStr ''First'')]\<rparr>,
      \<lparr>md_title = JStr ''Second'', md_source = JStr [], md_category = JStr [],
       md_date = JStr [], md_description = JStr [], md_content_length = JInt 0,
       content_snippet = [], full_article = JObj [(''title'', JStr ''Second'')]\<rparr>]"

definition example_ids :: "json list" where
  "example_ids = [JInt 0, JInt 5, JInt (- 1), JInt 1]"

definition example_reply :: json where
  "example_reply =
     JObj [(''themes'',
            JArr [JObj [(''name'', JStr ''AI''), (''description'', JStr ''About AI''),
                        (''article_ids'', JArr example_ids)],
                  JObj [(''name'', JStr ''Empty''), (''article_ids'', JArr [JInt 7])]])]"

definition example_clusters :: clustered_data where
  "example_clusters =
     \<lparr>themes = [\<lparr>theme_name = JStr ''AI'', theme_description = JStr ''About AI'',
                   articles = example_loaded\<rparr>],
      metadata_total_articles = 2, clustering_timestamp = ''2024-05-01T12:00:00''\<rparr>"

section \<open>Properties of article extraction\<close>

lemmas scrape_defs =
  scrape_article_general_def scrape_article_us_def scrape_article_euro_def
  scrape_article_asia_def

lemmas extract_defs =
  extract_title_def extract_content_def extract_date_def extract_author_def
  extract_description_def content_container_def select_one_def Let_def
  generic_title_selector_def generic_content_selector_def generic_date_selector_def
  author_selector_def description_selector_def truthy_attr_def

lemmas example_defs =
  page_def raise_for_status_def example_source_def example_clock_def next_day_clock_def
  three_paragraphs_def type_selectors_def find_all_def language_asia_def language_euro_def
  strip_def is_space_def

lemma produced_fields:
  assumes "produced css clk resp link src a"
  obtains r where "resp = Some r" "\<not> raise_for_status r"
    "title a = extract_title css (soup r) src"
    "content a = extract_content css (soup r) src"
    "date a = extract_date css clk (soup r) src"
    "author a = extract_author css (soup r)"
    "description a = extract_description css (soup r)"
    "content_length a = length (extract_content css (soup r) src)"
  using assms unfolding produced_def scrape_defs
  by (auto simp: Let_def split: option.splits if_splits)


lemma empty_page_record:
  "scrape_article_asia type_selectors clk (Some (page [])) link example_source =
     Some \<lparr>art_source = ''Example'', art_category = ''technology'',
           art_region = Some ''asia'', art_country = Some ''japan'', art_url = link,
           title = ''Title not found'', author = ''Author not found'', description = [],
           content = ''Content not found'', date = today clk, content_length = 17,
           language = Some ''ja'', scraped_at = isonow clk\<rparr>"
  by (simp add: scrape_article_asia_def extract_defs example_defs)

text \<open>
  C3. In every variant, the \<open>content_length\<close> of a record that \<open>scrape_article\<close>
  returns is the number of characters of its \<open>content\<close>; when the content is the
  placeholder "Content not found", that is 17.
\<close>

theorem content_length_exact:
  "produced css clk resp link src a \<Longrightarrow>
     content_length a = length (content a) \<and>
     (content a = ''Content not found'' \<longrightarrow> content_length a = 17)"
  by (erule produced_fields) auto

theorem content_length_exact_witness:
  "produced type_selectors example_clock (Some (page [])) ''https://example.com/a''
     example_source
     (the (scrape_article_asia type_selectors example_clock (Some (page []))
        ''https://example.com/a'' example_source)) \<and>
   content (the (scrape_article_asia type_selectors example_clock (Some (page []))
     ''https://example.com/a'' example_source)) = ''Content not found'' \<and>
   content_length (the (scrape_article_asia type_selectors example_clock (Some (page []))
     ''https://example.com/a'' example_source)) = 17"
proof -
  let ?a = "the (scrape_article_asia type_selectors example_clock (Some (page []))
    ''https://example.com/a'' example_source)"
  have p: "produced type_selectors example_clock (Some (page [])) ''https://example.com/a''
      example_source ?a"
    by (simp add: produced_def empty_page_record)
  have c: "content ?a = ''Content not found''"
    by (simp add: empty_page_record)
  from content_length_exact [OF p] c show ?thesis using p by blast
qed

text \<open>
  C9. In every variant, when no element matched by \<open>meta[name="description"]\<close> has a
  non-empty \<open>content\<close> attribute, the description of the record is the empty string.
  The description is never a placeholder: it is empty or the \<open>content\<close> attribute of a
  matched element.
\<close>

theorem description_default:
  "produced css clk (Some r) link src a \<Longrightarrow>
     (description a = [] \<or>
        (\<exists>m \<in> set (css description_selector (soup r)).
            get_attr m ''content'' = Some (description a))) \<and>
     ((\<forall>m \<in> set (css description_selector (soup r)).
          get_attr m ''content'' = None \<or> get_attr m ''content'' = Some []) \<longrightarrow>
        description a = [])"
  by (erule produced_fields)
     (auto simp: extract_description_def select_one_def truthy_attr_def
           split: list.splits option.splits if_splits)

lemma empty_description_record:
  "scrape_article_euro type_selectors example_clock
     (Some (page [Tag ''meta'' [(''name'', ''description''), (''content'', [])] []]))
     ''https://example.com/a'' example_source =
   Some \<lparr>art_source = ''Example'', art_category = ''technology'',
         art_region = Some ''asia'', art_country = Some ''japan'',
         art_url = ''https://example.com/a'',
         title = ''Title not found'', author = ''Author not found'', description = [],
         content = ''Content not found'', date = ''2024-05-01'', content_length = 17,
         language = Some ''en'', scraped_at = ''2024-05-01T12:00:00''\<rparr>"
  by (simp add: scrape_article_euro_def extract_defs example_defs)

theorem description_default_witness:
  "type_selectors description_selector
     (soup (page [Tag ''meta'' [(''name'', ''description''), (''content'', [])] []])) =
     [Tag ''meta'' [(''name'', ''description''), (''content'', [])] []] \<and>
   description (the (scrape_article_euro type_selectors example_clock
     (Some (page [Tag ''meta'' [(''name'', ''description''), (''content'', [])] []]))
     ''https://example.com/a'' example_source)) = []"
proof -
  let ?m = "Tag ''meta'' [(''name'', ''description''), (''content'', [])] []"
  let ?a = "the (scrape_article_euro type_selectors example_clock (Some (page [?m]))
    ''https://example.com/a'' example_source)"
  have p: "produced type_selectors example_clock (Some (page [?m])) ''https://example.com/a''
      example_source ?a"
    by (simp add: produced_def empty_description_record)
  have sel: "type_selectors description_selector (soup (page [?m])) = [?m]"
    by (simp add: example_defs description_selector_def)
  have h: "\<forall>m \<in> set (type_selectors description_selector (soup (page [?m]))).
      get_attr m ''content'' = None \<or> get_attr m ''content'' = Some []"
    by (simp add: sel)
  from description_default [OF p] h have "description ?a = []" by blast
  with sel show ?thesis by simp
qed




text \<open>
  C2 as stated fails for the date: when neither tier matches, the date is the current
  day as the clock gives it, so the same page scraped on two days has two dates.
\<close>

theorem date_default_counterexample:
  "type_selectors (date_selector example_source) (soup (page [])) = [] \<and>
   type_selectors generic_date_selector (soup (page [])) = [] \<and>
   date (the (scrape_article_asia type_selectors example_clock (Some (page []))
     ''https://example.com/a'' example_source)) = ''2024-05-01'' \<and>
   date (the (scrape_article_asia type_selectors next_day_clock (Some (page []))
     ''https://example.com/a'' example_source)) = ''2024-05-02''"
  by (simp add: empty_page_record)
     (simp add: example_defs generic_date_selector_def description_selector_def)

text \<open>
  C2, amended. In every variant, when neither the selector of the source nor the
  generic one matches, the title is "Title not found"; when the author selector
  matches nothing, the author is "Author not found"; when neither date selector
  matches, the date is the current day read from the clock.
\<close>

theorem sentinel_defaults:
  "produced css clk (Some r) link src a \<Longrightarrow>
     (css (title_selector src) (soup r) = [] \<and> css generic_title_selector (soup r) = []
        \<longrightarrow> title a = ''Title not found'') \<and>
     (css author_selector (soup r) = [] \<longrightarrow> author a = ''Author not found'') \<and>
     (css (date_selector src) (soup r) = [] \<and> css generic_date_selector (soup r) = []
        \<longrightarrow> date a = today clk)"
  by (erule produced_fields)
     (simp add: extract_title_def extract_author_def extract_date_def select_one_def)

theorem sentinel_defaults_witness:
  "title (the (scrape_article_general type_selectors example_clock (Some (page []))
     ''https://example.com/a'' example_source)) = ''Title not found'' \<and>
   author (the (scrape_article_general type_selectors example_clock (Some (page []))
     ''https://example.com/a'' example_source)) = ''Author not found'' \<and>
   date (the (scrape_article_general type_selectors example_clock (Some (page []))
     ''https://example.com/a'' example_source)) = today example_clock"
proof -
  let ?a = "the (scrape_article_general type_selectors example_clock (Some (page []))
    ''https://example.com/a'' example_source)"
  have p: "produced type_selectors example_clock (Some (page [])) ''https://example.com/a''
      example_source ?a"
    by (simp add: produced_def scrape_article_general_def Let_def raise_for_status_def
        page_def)
  have e: "type_selectors (title_selector example_source) (soup (page [])) = []"
    "type_selectors generic_title_selector (soup (page [])) = []"
    "type_selectors author_selector (soup (page [])) = []"
    "type_selectors (date_selector example_source) (soup (page [])) = []"
    "type_selectors generic_date_selector (soup (page [])) = []"
    by (simp_all add: example_defs generic_title_selector_def generic_date_selector_def
        author_selector_def description_selector_def)
  from sentinel_defaults [OF p] e show ?thesis by blast
qed

section \<open>Properties of link discovery\<close>

lemmas link_defs =
  get_article_links_general_def get_article_links_regional_def listing_def page_def
  raise_for_status_def example_source_def type_selectors_def find_all_def find_link_def
  find_tag_def truthy_attr_def select_one_def headline_selector_def
  description_selector_def startswith_def endswith_def match_domain_def absolute_url_def
  Let_def

lemma collect_general_bound:
  "collect_links_general css u arts links = Some out \<Longrightarrow> distinct links \<Longrightarrow>
     distinct out \<and> length out \<le> length links + length arts"
proof (induction css u arts links arbitrary: out rule: collect_links_general.induct)
  case (1 css u links)
  then show ?case by simp
next
  case (2 css u article rest links)
  show ?case
  proof (cases "find_link css article")
    case None
    with "2.IH"(1) "2.prems" show ?thesis by fastforce
  next
    case (Some link)
    let ?n = "if startswith link ''/''
                 then (case match_domain u of
                         None \<Rightarrow> None | Some domain \<Rightarrow> Some (domain @ link))
                 else Some link"
    from "2.prems"(1) Some obtain l' where l': "?n = Some l'"
      by (cases ?n) auto
    let ?links = "if l' \<notin> set links then links @ [l'] else links"
    from "2.prems"(1) Some l' have r: "collect_links_general css u rest ?links = Some out"
      by simp
    have d: "distinct ?links" using "2.prems"(2) by simp
    from "2.IH"(2)[OF Some l' r d] show ?thesis by (auto split: if_splits)
  qed
qed

lemma collect_regional_bound:
  "collect_links_regional css u arts links = Some out \<Longrightarrow> distinct links \<Longrightarrow>
     distinct out \<and> length out \<le> length links + length arts"
proof (induction css u arts links arbitrary: out rule: collect_links_regional.induct)
  case (1 css u links)
  then show ?case by simp
next
  case (2 css u article rest links)
  show ?case
  proof (cases "find_link css article")
    case None
    with "2.IH"(1) "2.prems" show ?thesis by fastforce
  next
    case (Some link)
    let ?n = "if startswith link ''/''
                 then (case match_domain u of
                         None \<Rightarrow> None | Some domain \<Rightarrow> Some (domain @ link))
                 else if \<not> startswith link ''http''
                 then (case match_domain u of
                         None \<Rightarrow> None
                       | Some domain \<Rightarrow>
                           Some (domain @ ''/'' @ dropWhile (\<lambda>c. c = CHR ''/'') link))
                 else Some link"
    from "2.prems"(1) Some obtain l' where l': "?n = Some l'"
      by (cases ?n) auto
    let ?links = "if l' \<notin> set links \<and> \<not> endswith l' ''#'' then links @ [l'] else links"
    from "2.prems"(1) Some l' have r: "collect_links_regional css u rest ?links = Some out"
      by simp
    have d: "distinct ?links" using "2.prems"(2) by simp
    from "2.IH"(2)[OF Some l' r d] show ?thesis by (auto split: if_splits)
  qed
qed

text \<open>
  In every variant the links returned for a source are at most 15 and no link occurs
  twice.
\<close>

lemma links_bounded:
  "distinct (get_article_links_general css resp src) \<and>
   length (get_article_links_general css resp src) \<le> 15 \<and>
   distinct (get_article_links_regional css resp src) \<and>
   length (get_article_links_regional css resp src) \<le> 15"
proof -
  let ?arts = "take 15 (css (article_selector src) (soup (the resp)))"
  have "length ?arts \<le> 15" by simp
  with collect_general_bound [of css "url src" ?arts "[]"]
    collect_regional_bound [of css "url src" ?arts "[]"]
  show ?thesis
    by (auto simp: get_article_links_general_def get_article_links_regional_def
        split: option.splits)
qed

lemma listing_links_regional:
  "get_article_links_regional type_selectors (Some (listing ''/story/1'')) example_source =
     [''https://example.com/story/1'']"
  by (simp add: link_defs)

lemma listing_links_general:
  "get_article_links_general type_selectors (Some (listing ''/story/1'')) example_source =
     [''https://example.com/story/1'']"
  by (simp add: link_defs)

text \<open>
  C4. \<open>ArticleScraper.get_article_links\<close> (\<open>scrape-articles.py\<close>) returns a link
  without scheme and without leading slash as it stands, so not every URL it returns
  is absolute; the method of the regional scrapers joins the same link to the domain of
  the homepage.
\<close>

theorem relative_link_not_joined:
  "get_article_links_general type_selectors (Some (listing ''story/1'')) example_source =
     [''story/1''] \<and>
   \<not> absolute_url ''story/1'' \<and>
   get_article_links_regional type_selectors (Some (listing ''story/1'')) example_source =
     [''https://example.com/story/1'']"
  by (simp add: link_defs)

text \<open>
  The regional method tests \<open>startswith('http')\<close>, not the presence of a scheme: a
  relative link whose first letters are \<open>http\<close> is returned as it stands.
\<close>

lemma relative_link_with_http_prefix:
  "get_article_links_regional type_selectors (Some (listing ''http_guide.html''))
     example_source = [''http_guide.html''] \<and>
   \<not> absolute_url ''http_guide.html''"
  by (simp add: link_defs)

section \<open>Properties of the retry loops\<close>

lemma link_attempts_prefix_fail:
  "(\<And>i. i < length pre \<Longrightarrow> links_at v w src s i = []) \<Longrightarrow>
   link_attempts v w N src (pre @ post) s =
     link_attempts v w N src post
       (s\<lparr>requests := requests s + length pre,
          article_links := (if pre = [] then article_links s else Some []),
          pauses := pauses s @ map source_backoff (filter (\<lambda>k. int k < N - 1) pre)\<rparr>)"
proof (induction pre arbitrary: s)
  case Nil
  then show ?case by simp
next
  case (Cons a pre)
  from Cons.prems [of 0] have f: "get_article_links v (engine w) (web w (requests s) (url src)) src = []"
    by (simp add: links_at_def)
  let ?s1 = "s\<lparr>requests := requests s + 1, article_links := Some []\<rparr>"
  let ?s2 = "if int a < N - 1 then ?s1\<lparr>pauses := pauses ?s1 @ [Secs (3 + int a * 2)]\<rparr> else ?s1"
  have r: "\<And>i. i < length pre \<Longrightarrow> links_at v w src ?s2 i = []"
    using Cons.prems [of "Suc i" for i] by (simp add: links_at_def)
  have "link_attempts v w N src ((a # pre) @ post) s = link_attempts v w N src (pre @ post) ?s2"
    using f by (simp add: Let_def)
  also have "\<dots> = link_attempts v w N src post
       (?s2\<lparr>requests := requests ?s2 + length pre,
          article_links := (if pre = [] then article_links ?s2 else Some []),
          pauses := pauses ?s2 @ map source_backoff (filter (\<lambda>k. int k < N - 1) pre)\<rparr>)"
    by (rule Cons.IH [OF r])
  also have "\<dots> = link_attempts v w N src post
       (s\<lparr>requests := requests s + length (a # pre),
          article_links := (if a # pre = [] then article_links s else Some []),
          pauses := pauses s @ map source_backoff (filter (\<lambda>k. int k < N - 1) (a # pre))\<rparr>)"
    by (simp add: source_backoff_def mult.commute)
  finally show ?case .
qed

lemma article_attempts_prefix_fail:
  "(\<And>i. i < length pre \<Longrightarrow> \<not> attempt_ok v (scraped_at_attempt v w src link s i)) \<Longrightarrow>
   article_attempts v w N src link (pre @ post) s =
     article_attempts v w N src link post
       (s\<lparr>requests := requests s + length pre,
          pauses := pauses s @ map article_backoff (filter (\<lambda>k. int k < N - 1) pre)\<rparr>)"
proof (induction pre arbitrary: s)
  case Nil
  then show ?case by simp
next
  case (Cons a pre)
  from Cons.prems [of 0]
  have f: "\<not> attempt_ok v (scrape_article v (engine w) (clock_at w (requests s)) (web w (requests s) link) link src)"
    by (simp add: scraped_at_attempt_def)
  let ?s1 = "s\<lparr>requests := requests s + 1\<rparr>"
  let ?s2 = "if int a < N - 1 then ?s1\<lparr>pauses := pauses ?s1 @ [Secs (2 + int a)]\<rparr> else ?s1"
  have r: "\<And>i. i < length pre \<Longrightarrow> \<not> attempt_ok v (scraped_at_attempt v w src link ?s2 i)"
    using Cons.prems [of "Suc i" for i] by (simp add: scraped_at_attempt_def)
  have "article_attempts v w N src link ((a # pre) @ post) s = article_attempts v w N src link (pre @ post) ?s2"
    using f by (simp add: Let_def attempt_ok_def split: option.splits)
  also have "\<dots> = article_attempts v w N src link post
       (?s2\<lparr>requests := requests ?s2 + length pre,
          pauses := pauses ?s2 @ map article_backoff (filter (\<lambda>k. int k < N - 1) pre)\<rparr>)"
    by (rule Cons.IH [OF r])
  also have "\<dots> = article_attempts v w N src link post
       (s\<lparr>requests := requests s + length (a # pre),
          pauses := pauses s @ map article_backoff (filter (\<lambda>k. int k < N - 1) (a # pre))\<rparr>)"
    by (simp add: article_backoff_def)
  finally show ?case .
qed

lemma filter_early: "j < nat N \<Longrightarrow> filter (\<lambda>k. int k < N - 1) [0..<j] = [0..<j]"
  by (rule filter_True) auto

lemma filter_all: "filter (\<lambda>k. int k < N - 1) [0..<nat N] = [0..<nat N - 1]"
proof (cases "0 < N")
  case True
  then have "[0..<nat N] = [0..<nat N - 1] @ [nat N - 1]"
    by (metis Suc_diff_1 upt_Suc_append zero_le zero_less_nat_eq)
  moreover have "filter (\<lambda>k. int k < N - 1) [0..<nat N - 1] = [0..<nat N - 1]"
    by (rule filter_True) auto
  ultimately show ?thesis using True by auto
next
  case False
  then show ?thesis by simp
qed

lemma upt_split: "j < n \<Longrightarrow> [0..<n] = [0..<j] @ j # [Suc j..<n]"
  by (metis le_add1 less_imp_add_positive upt_add_eq_append upt_conv_Cons plus_nat.add_0 less_eq_nat.simps(1))


lemma link_attempts_first_success:
  assumes "j < nat N" "\<And>i. i < j \<Longrightarrow> links_at v w src s i = []" "links_at v w src s j \<noteq> []"
  shows "link_attempts v w N src [0..<nat N] s =
           s\<lparr>requests := requests s + j + 1, article_links := Some (links_at v w src s j),
             pauses := pauses s @ map source_backoff [0..<j]\<rparr>"
proof -
  have "link_attempts v w N src ([0..<j] @ j # [Suc j..<nat N]) s =
      link_attempts v w N src (j # [Suc j..<nat N])
       (s\<lparr>requests := requests s + length [0..<j],
          article_links := (if [0..<j] = [] then article_links s else Some []),
          pauses := pauses s @ map source_backoff (filter (\<lambda>k. int k < N - 1) [0..<j])\<rparr>)"
    by (rule link_attempts_prefix_fail) (simp add: assms(2))
  then show ?thesis
    using assms(1,3) by (simp add: upt_split [OF assms(1), symmetric] filter_early links_at_def Let_def)
qed

lemma link_attempts_exhausted:
  assumes "\<And>i. i < nat N \<Longrightarrow> links_at v w src s i = []"
  shows "link_attempts v w N src [0..<nat N] s =
           s\<lparr>requests := requests s + nat N,
             article_links := (if N \<le> 0 then article_links s else Some []),
             pauses := pauses s @ map source_backoff [0..<nat N - 1]\<rparr>"
proof -
  have "link_attempts v w N src ([0..<nat N] @ []) s =
      link_attempts v w N src []
       (s\<lparr>requests := requests s + length [0..<nat N],
          article_links := (if [0..<nat N] = [] then article_links s else Some []),
          pauses := pauses s @ map source_backoff (filter (\<lambda>k. int k < N - 1) [0..<nat N])\<rparr>)"
    by (rule link_attempts_prefix_fail) (simp add: assms)
  then show ?thesis
    by (simp add: filter_all)
qed

lemma article_attempts_first_success:
  assumes "j < nat N" "\<And>i. i < j \<Longrightarrow> \<not> attempt_ok v (scraped_at_attempt v w src link s i)"
    "scraped_at_attempt v w src link s j = Some a" "accepts v a"
  shows "article_attempts v w N src link [0..<nat N] s =
           s\<lparr>requests := requests s + j + 1,
             pauses := pauses s @ map article_backoff [0..<j],
             disk := store v w (clock_at w (requests s + j)) a (disk s),
             all_articles := all_articles s @ [a]\<rparr>"
proof -
  have "article_attempts v w N src link ([0..<j] @ j # [Suc j..<nat N]) s =
      article_attempts v w N src link (j # [Suc j..<nat N])
       (s\<lparr>requests := requests s + length [0..<j],
          pauses := pauses s @ map article_backoff (filter (\<lambda>k. int k < N - 1) [0..<j])\<rparr>)"
    by (rule article_attempts_prefix_fail) (simp add: assms(2))
  then show ?thesis
    using assms(1,3,4)
    by (simp add: upt_split [OF assms(1), symmetric] filter_early scraped_at_attempt_def Let_def)
qed

lemma article_attempts_exhausted:
  assumes "\<And>i. i < nat N \<Longrightarrow> \<not> attempt_ok v (scraped_at_attempt v w src link s i)"
  shows "article_attempts v w N src link [0..<nat N] s =
           s\<lparr>requests := requests s + nat N,
             pauses := pauses s @ map article_backoff [0..<nat N - 1]\<rparr>"
proof -
  have "article_attempts v w N src link ([0..<nat N] @ []) s =
      article_attempts v w N src link []
       (s\<lparr>requests := requests s + length [0..<nat N],
          pauses := pauses s @ map article_backoff (filter (\<lambda>k. int k < N - 1) [0..<nat N])\<rparr>)"
    by (rule article_attempts_prefix_fail) (simp add: assms)
  then show ?thesis
    by (simp add: filter_all)
qed

text \<open>
  C6. In every variant, with \<open>N\<close> configured attempts: when the attempts before the one
  with index \<open>j\<close> fail and that one succeeds, the loop ends with its result after the
  backoff sleeps of the attempts \<open>0..j-1\<close>, which are \<open>3+2k\<close> seconds for the links of a
  source and \<open>2+k\<close> seconds for an article; when all \<open>N\<close> attempts fail, the sleeps are
  those of the attempts \<open>0..N-2\<close>, so none follows the last attempt. With \<open>N = 3\<close>, an
  operation that fails twice and then succeeds gives its result after exactly two
  sleeps.
\<close>

theorem retry_backoff:
  "(j < nat N \<and> (\<forall>i<j. links_at v w src s i = []) \<and> links_at v w src s j \<noteq> [] \<longrightarrow>
      link_attempts v w N src [0..<nat N] s =
        s\<lparr>requests := requests s + j + 1, article_links := Some (links_at v w src s j),
          pauses := pauses s @ map source_backoff [0..<j]\<rparr>) \<and>
   ((\<forall>i<nat N. links_at v w src s i = []) \<longrightarrow>
      link_attempts v w N src [0..<nat N] s =
        s\<lparr>requests := requests s + nat N,
          article_links := (if N \<le> 0 then article_links s else Some []),
          pauses := pauses s @ map source_backoff [0..<nat N - 1]\<rparr>) \<and>
   (j < nat N \<and> (\<forall>i<j. \<not> attempt_ok v (scraped_at_attempt v w src link s i)) \<and>
    scraped_at_attempt v w src link s j = Some a \<and> accepts v a \<longrightarrow>
      article_attempts v w N src link [0..<nat N] s =
        s\<lparr>requests := requests s + j + 1,
          pauses := pauses s @ map article_backoff [0..<j],
          disk := store v w (clock_at w (requests s + j)) a (disk s),
          all_articles := all_articles s @ [a]\<rparr>) \<and>
   ((\<forall>i<nat N. \<not> attempt_ok v (scraped_at_attempt v w src link s i)) \<longrightarrow>
      article_attempts v w N src link [0..<nat N] s =
        s\<lparr>requests := requests s + nat N,
          pauses := pauses s @ map article_backoff [0..<nat N - 1]\<rparr>) \<and>
   (links_at v w src s 0 = [] \<and> links_at v w src s 1 = [] \<and> links_at v w src s 2 \<noteq> [] \<longrightarrow>
      link_attempts v w 3 src [0..<nat 3] s =
        s\<lparr>requests := requests s + 3, article_links := Some (links_at v w src s 2),
          pauses := pauses s @ [Secs 3, Secs 5]\<rparr>) \<and>
   (\<not> attempt_ok v (scraped_at_attempt v w src link s 0) \<and>
    \<not> attempt_ok v (scraped_at_attempt v w src link s 1) \<and>
    scraped_at_attempt v w src link s 2 = Some a \<and> accepts v a \<longrightarrow>
      article_attempts v w 3 src link [0..<nat 3] s =
        s\<lparr>requests := requests s + 3,
          pauses := pauses s @ [Secs 2, Secs 3],
          disk := store v w (clock_at w (requests s + 2)) a (disk s),
          all_articles := all_articles s @ [a]\<rparr>)"
proof (intro conjI impI)
  assume "j < nat N \<and> (\<forall>i<j. links_at v w src s i = []) \<and> links_at v w src s j \<noteq> []"
  then show "link_attempts v w N src [0..<nat N] s =
        s\<lparr>requests := requests s + j + 1, article_links := Some (links_at v w src s j),
          pauses := pauses s @ map source_backoff [0..<j]\<rparr>"
    by (intro link_attempts_first_success) auto
next
  assume "\<forall>i<nat N. links_at v w src s i = []"
  then show "link_attempts v w N src [0..<nat N] s =
        s\<lparr>requests := requests s + nat N,
          article_links := (if N \<le> 0 then article_links s else Some []),
          pauses := pauses s @ map source_backoff [0..<nat N - 1]\<rparr>"
    by (intro link_attempts_exhausted) auto
next
  assume "j < nat N \<and> (\<forall>i<j. \<not> attempt_ok v (scraped_at_attempt v w src link s i)) \<and>
    scraped_at_attempt v w src link s j = Some a \<and> accepts v a"
  then show "article_attempts v w N src link [0..<nat N] s =
        s\<lparr>requests := requests s + j + 1,
          pauses := pauses s @ map article_backoff [0..<j],
          disk := store v w (clock_at w (requests s + j)) a (disk s),
          all_articles := all_articles s @ [a]\<rparr>"
    by (intro article_attempts_first_success) auto
next
  assume "\<forall>i<nat N. \<not> attempt_ok v (scraped_at_attempt v w src link s i)"
  then show "article_attempts v w N src link [0..<nat N] s =
        s\<lparr>requests := requests s + nat N,
          pauses := pauses s @ map article_backoff [0..<nat N - 1]\<rparr>"
    by (intro article_attempts_exhausted) auto
next
  assume a: "links_at v w src s 0 = [] \<and> links_at v w src s 1 = [] \<and> links_at v w src s 2 \<noteq> []"
  have "\<And>i. i < (2::nat) \<Longrightarrow> links_at v w src s i = []"
    using a less_2_cases by auto
  from link_attempts_first_success [of 2 3 v w src s, OF _ this]
  show "link_attempts v w 3 src [0..<nat 3] s =
        s\<lparr>requests := requests s + 3, article_links := Some (links_at v w src s 2),
          pauses := pauses s @ [Secs 3, Secs 5]\<rparr>"
    using a by (simp add: source_backoff_def upt_rec [of 0] upt_rec [of 1] numeral_2_eq_2 add.commute)
next
  assume a: "\<not> attempt_ok v (scraped_at_attempt v w src link s 0) \<and>
    \<not> attempt_ok v (scraped_at_attempt v w src link s 1) \<and>
    scraped_at_attempt v w src link s 2 = Some a \<and> accepts v a"
  have "\<And>i. i < (2::nat) \<Longrightarrow> \<not> attempt_ok v (scraped_at_attempt v w src link s i)"
    using a less_2_cases by auto
  from article_attempts_first_success [of 2 3 v w src link s a, OF _ this]
  show "article_attempts v w 3 src link [0..<nat 3] s =
        s\<lparr>requests := requests s + 3,
          pauses := pauses s @ [Secs 2, Secs 3],
          disk := store v w (clock_at w (requests s + 2)) a (disk s),
          all_articles := all_articles s @ [a]\<rparr>"
    using a by (simp add: article_backoff_def upt_rec [of 0] upt_rec [of 1] numeral_2_eq_2 add.commute)
qed


subsection \<open>The examples, evaluated\<close>

lemma three_attempts: "[0..<nat 3] = [0, 1, 2]" "[0..<(3::nat)] = [0, 1, 2]"
  by (simp_all add: upt_rec)

lemma no_response_links:
  "get_article_links_regional css None src = []"
  "get_article_links_general css None src = []"
  by (simp_all add: get_article_links_regional_def get_article_links_general_def)

lemma no_response_record:
  "scrape_article_general css clk None link src = None"
  "scrape_article_us css clk None link src = None"
  "scrape_article_euro css clk None link src = None"
  "scrape_article_asia css clk None link src = None"
  by (simp_all add: scrape_defs)

lemma story_asia:
  "scrape_article_asia type_selectors example_clock (Some story) link example_source =
     Some (story_record link)"
  by (simp add: scrape_article_asia_def story_def story_record_def extract_defs example_defs)

lemma story_us:
  "scrape_article_us type_selectors example_clock (Some story) link example_source =
     Some (story_record link\<lparr>art_country := None, language := None\<rparr>)"
  by (simp add: scrape_article_us_def story_def story_record_def extract_defs example_defs)

lemma empty_general:
  "scrape_article_general type_selectors example_clock (Some (page [])) link example_source =
     Some (placeholder_record link)"
  by (simp add: scrape_article_general_def placeholder_record_def extract_defs example_defs)

lemma empty_asia:
  "scrape_article_asia type_selectors example_clock (Some (page [])) link example_source =
     Some (placeholder_record link\<lparr>art_region := Some ''asia'',
       art_country := Some ''japan'', language := Some ''ja''\<rparr>)"
  by (simp add: empty_page_record placeholder_record_def example_clock_def)

lemma world_fields:
  "engine (example_world n home other) = type_selectors"
  "web (example_world n home other) k u =
     (if k < n then None else if u = ''https://example.com/'' then Some home else Some other)"
  "clock_at (example_world n home other) k = example_clock"
  "completion (example_world n home other) p = None"
  by (simp_all add: example_world_def)

lemma variant_fields:
  "get_article_links (general_variant out) = get_article_links_general"
  "scrape_article (general_variant out) = scrape_article_general"
  "accepts (general_variant out) a = True"
  "store (general_variant out) w clk a d = d"
  "save_after_source (general_variant out) = save_to_json_general out"
  "get_article_links (asia_variant out) = get_article_links_regional"
  "scrape_article (asia_variant out) = scrape_article_asia"
  "accepts (asia_variant out) a =
     (title a \<noteq> ''Title not found'' \<and> content a \<noteq> ''Content not found'')"
  "store (asia_variant out) w clk a d = d"
  "save_after_source (asia_variant out) = save_to_json_regional out"
  "get_article_links (us_variant dir key) = get_article_links_regional"
  "scrape_article (us_variant dir key) = scrape_article_us"
  "accepts (us_variant dir key) a = (title a \<noteq> [] \<and> content a \<noteq> ''Content not found'')"
  "store (us_variant dir key) w = store_us dir key (completion w)"
  "save_after_source (us_variant dir key) arts d = d"
  by (simp_all add: general_variant_def asia_variant_def us_variant_def)

lemma src_url: "url example_source = ''https://example.com/''"
  by (simp add: example_source_def)

lemmas run_eval =
  process_source_def initial_state_def three_attempts world_fields variant_fields src_url
  listing_links_general listing_links_regional no_response_links no_response_record
  story_asia story_us empty_general empty_asia Let_def links_at_def scraped_at_attempt_def
  attempt_ok_def

theorem retry_backoff_witness:
  "link_attempts (asia_variant ''out.json'') (example_world 2 (listing ''/story/1'') story) 3
     example_source [0..<nat 3] (initial_state empty_disk) =
   (initial_state empty_disk)\<lparr>requests := 3,
      article_links := Some [''https://example.com/story/1''],
      pauses := [Secs 3, Secs 5]\<rparr> \<and>
   article_attempts (asia_variant ''out.json'') (example_world 2 (listing ''/story/1'') story) 3
     example_source ''https://example.com/story/1'' [0..<nat 3] (initial_state empty_disk) =
   (initial_state empty_disk)\<lparr>requests := 3, pauses := [Secs 2, Secs 3],
      all_articles := [story_record ''https://example.com/story/1'']\<rparr> \<and>
   link_attempts (asia_variant ''out.json'') (example_world 9 (listing ''/story/1'') story) 3
     example_source [0..<nat 3] (initial_state empty_disk) =
   (initial_state empty_disk)\<lparr>requests := 3, article_links := Some [],
      pauses := [Secs 3, Secs 5]\<rparr> \<and>
   article_attempts (asia_variant ''out.json'') (example_world 9 (listing ''/story/1'') story) 3
     example_source ''https://example.com/story/1'' [0..<nat 3] (initial_state empty_disk) =
   (initial_state empty_disk)\<lparr>requests := 3, pauses := [Secs 2, Secs 3]\<rparr>"
proof -
  let ?v = "asia_variant ''out.json''"
  let ?w = "example_world 2 (listing ''/story/1'') story"
  let ?w9 = "example_world 9 (listing ''/story/1'') story"
  let ?s = "initial_state empty_disk"
  let ?l = "''https://example.com/story/1''"
  have l: "links_at ?v ?w example_source ?s 0 = []" "links_at ?v ?w example_source ?s 1 = []"
    "links_at ?v ?w example_source ?s 2 = [?l]"
    by (simp_all add: run_eval)
  have a: "\<not> attempt_ok ?v (scraped_at_attempt ?v ?w example_source ?l ?s 0)"
    "\<not> attempt_ok ?v (scraped_at_attempt ?v ?w example_source ?l ?s 1)"
    "scraped_at_attempt ?v ?w example_source ?l ?s 2 = Some (story_record ?l)"
    "accepts ?v (story_record ?l)"
    by (simp_all add: run_eval story_record_def)
  have l9: "\<forall>i<nat 3. links_at ?v ?w9 example_source ?s i = []"
    by (simp add: run_eval)
  have a9: "\<forall>i<nat 3. \<not> attempt_ok ?v (scraped_at_attempt ?v ?w9 example_source ?l ?s i)"
    by (simp add: run_eval)
  note t = retry_backoff [of 2 3 ?v ?w example_source ?s ?l "story_record ?l"]
  note t9 = retry_backoff [of 2 3 ?v ?w9 example_source ?s ?l "story_record ?l"]
  from t l have 1: "link_attempts ?v ?w 3 example_source [0..<nat 3] ?s =
      ?s\<lparr>requests := requests ?s + 3, article_links := Some [?l],
        pauses := pauses ?s @ [Secs 3, Secs 5]\<rparr>"
    by simp
  from t a have 2: "article_attempts ?v ?w 3 example_source ?l [0..<nat 3] ?s =
      ?s\<lparr>requests := requests ?s + 3, pauses := pauses ?s @ [Secs 2, Secs 3],
        disk := store ?v ?w (clock_at ?w (requests ?s + 2)) (story_record ?l) (disk ?s),
        all_articles := all_articles ?s @ [story_record ?l]\<rparr>"
    by simp
  from t9 l9 have 3: "link_attempts ?v ?w9 3 example_source [0..<nat 3] ?s =
      ?s\<lparr>requests := requests ?s + nat 3,
        article_links := (if (3::int) \<le> 0 then article_links ?s else Some []),
        pauses := pauses ?s @ map source_backoff [0..<nat 3 - 1]\<rparr>"
    by blast
  from t9 a9 have 4: "article_attempts ?v ?w9 3 example_source ?l [0..<nat 3] ?s =
      ?s\<lparr>requests := requests ?s + nat 3,
        pauses := pauses ?s @ map article_backoff [0..<nat 3 - 1]\<rparr>"
    by blast
  have u: "[0..<nat 3 - 1] = [0, 1]" by (simp add: upt_rec)
  show ?thesis
    unfolding 1 2 3 4 u
    by (simp add: initial_state_def variant_fields source_backoff_def article_backoff_def)
qed

section \<open>Which scraped records count as a success\<close>

lemma link_attempts_keeps:
  "all_articles (link_attempts v w N src atts s) = all_articles s \<and>
   disk (link_attempts v w N src atts s) = disk s"
  by (induction atts arbitrary: s) (auto simp: Let_def)

lemma article_attempts_accepted:
  "\<exists>new. all_articles (article_attempts v w N src link atts s) = all_articles s @ new \<and>
         list_all (accepts v) new"
proof (induction atts arbitrary: s)
  case Nil
  then show ?case by simp
next
  case (Cons k rest)
  let ?s1 = "s\<lparr>requests := requests s + 1\<rparr>"
  let ?s2 = "if int k < N - 1 then ?s1\<lparr>pauses := pauses ?s1 @ [Secs (2 + int k)]\<rparr> else ?s1"
  from Cons.IH [of ?s2] obtain new where
    n: "all_articles (article_attempts v w N src link rest ?s2) = all_articles s @ new"
       "list_all (accepts v) new"
    by (auto split: if_splits)
  show ?case
  proof (cases "scrape_article v (engine w) (clock_at w (requests s)) (web w (requests s) link) link src")
    case None
    with n show ?thesis by (auto simp: Let_def)
  next
    case (Some a)
    show ?thesis
    proof (cases "accepts v a")
      case True
      with Some show ?thesis by (simp add: Let_def)
    next
      case False
      with Some n show ?thesis by (auto simp: Let_def)
    qed
  qed
qed

lemma links_loop_accepted:
  "\<exists>new. all_articles (links_loop v w N src links s) = all_articles s @ new \<and>
         list_all (accepts v) new"
proof (induction links arbitrary: s)
  case Nil
  then show ?case by simp
next
  case (Cons link rest)
  let ?s1 = "article_attempts v w N src link [0..<nat N] (s\<lparr>pauses := pauses s @ [Jitter]\<rparr>)"
  from article_attempts_accepted [of v w N src link "[0..<nat N]" "s\<lparr>pauses := pauses s @ [Jitter]\<rparr>"]
  obtain n1 where n1: "all_articles ?s1 = all_articles s @ n1" "list_all (accepts v) n1"
    by auto
  from Cons.IH [of ?s1] obtain n2 where
    n2: "all_articles (links_loop v w N src rest ?s1) = all_articles ?s1 @ n2" "list_all (accepts v) n2"
    by auto
  from n1 n2 have "all_articles (links_loop v w N src (link # rest) s) = all_articles s @ (n1 @ n2)"
    "list_all (accepts v) (n1 @ n2)" by simp_all
  then show ?case by blast
qed

lemma process_source_accepted:
  assumes "process_source v w N src s = Inr s'"
  shows "\<exists>new. all_articles s' = all_articles s @ new \<and> list_all (accepts v) new"
proof -
  let ?s1 = "link_attempts v w N src [0..<nat N] s"
  from assms obtain links where l: "article_links ?s1 = Some links"
    by (auto simp: process_source_def Let_def split: option.splits)
  with assms have "all_articles s' = all_articles (links_loop v w N src links ?s1)"
    by (auto simp: process_source_def Let_def)
  with links_loop_accepted [of v w N src links ?s1] link_attempts_keeps [of v w N src "[0..<nat N]" s]
  show ?thesis by auto
qed

lemma sources_loop_accepted:
  "sources_loop v w N srcs s = Inr s' \<Longrightarrow>
     \<exists>new. all_articles s' = all_articles s @ new \<and> list_all (accepts v) new"
proof (induction srcs arbitrary: s)
  case Nil
  then show ?case by simp
next
  case (Cons src rest)
  from Cons.prems obtain s1 where s1: "process_source v w N src s = Inr s1"
    "sources_loop v w N rest s1 = Inr s'"
    by (auto split: sum.splits)
  from process_source_accepted [OF s1(1)] obtain n1 where
    n1: "all_articles s1 = all_articles s @ n1" "list_all (accepts v) n1" by auto
  from Cons.IH [OF s1(2)] obtain n2 where
    n2: "all_articles s' = all_articles s1 @ n2" "list_all (accepts v) n2" by auto
  from n1 n2 have "all_articles s' = all_articles s @ (n1 @ n2)" "list_all (accepts v) (n1 @ n2)"
    by simp_all
  then show ?case by blast
qed

lemma run_accepted:
  "sources_loop v w N srcs (initial_state d) = Inr s \<Longrightarrow> list_all (accepts v) (all_articles s)"
  using sources_loop_accepted [of v w N srcs "initial_state d" s]
  by (auto simp: initial_state_def)

lemma list_all_weaken: "list_all P xs \<Longrightarrow> (\<And>x. P x \<Longrightarrow> Q x) \<Longrightarrow> list_all Q xs"
  by (induction xs) auto

lemma us_accepts_content:
  "accepts (us_variant out key) a \<Longrightarrow> content a \<noteq> ''Content not found''"
  by (simp add: us_variant_def)

text \<open>
  C1, amended. In \<open>EuropeNewsScraper.run\<close> and \<open>AsiaNewsScraper.run\<close> a returned record
  is appended, ending the retry loop, when neither its title nor its content is the
  placeholder, and is treated as a failed attempt otherwise; so every record these runs
  accumulate is free of both placeholders. Every record that \<open>USNewsScraper.run\<close>
  accumulates has a content other than the placeholder. \<open>ArticleScraper.run\<close> appends
  every record that \<open>scrape_article\<close> returns.
\<close>

theorem sentinel_records_retried:
  "(v = euro_variant out \<or> v = asia_variant out \<longrightarrow>
      (scraped_at_attempt v w src link s 0 = Some a \<and> \<not> bears_sentinel a \<longrightarrow>
         article_attempts v w N src link (k # rest) s =
           s\<lparr>requests := requests s + 1, all_articles := all_articles s @ [a]\<rparr>) \<and>
      (scraped_at_attempt v w src link s 0 = Some a \<and> bears_sentinel a \<longrightarrow>
         article_attempts v w N src link (k # rest) s =
           article_attempts v w N src link rest
             (if int k < N - 1
              then s\<lparr>requests := requests s + 1, pauses := pauses s @ [article_backoff k]\<rparr>
              else s\<lparr>requests := requests s + 1\<rparr>))) \<and>
   (run_euro w N out srcs d = Inr s' \<longrightarrow>
      list_all (\<lambda>a. \<not> bears_sentinel a) (all_articles s')) \<and>
   (run_asia w N out srcs d = Inr s' \<longrightarrow>
      list_all (\<lambda>a. \<not> bears_sentinel a) (all_articles s')) \<and>
   (run_us w N out key srcs d = Inr s' \<longrightarrow>
      list_all (\<lambda>a. content a \<noteq> ''Content not found'') (all_articles s')) \<and>
   (scraped_at_attempt (general_variant out) w src link s 0 = Some a \<longrightarrow>
      article_attempts (general_variant out) w N src link (k # rest) s =
        s\<lparr>requests := requests s + 1, all_articles := all_articles s @ [a]\<rparr>)"
proof (intro conjI impI)
  assume v: "v = euro_variant out \<or> v = asia_variant out"
    and a: "scraped_at_attempt v w src link s 0 = Some a \<and> \<not> bears_sentinel a"
  from v have "accepts v a = (\<not> bears_sentinel a)" "\<And>clk. store v w clk a (disk s) = disk s"
    by (auto simp: euro_variant_def asia_variant_def bears_sentinel_def)
  with a show "article_attempts v w N src link (k # rest) s =
           s\<lparr>requests := requests s + 1, all_articles := all_articles s @ [a]\<rparr>"
    by (simp add: scraped_at_attempt_def Let_def)
next
  assume v: "v = euro_variant out \<or> v = asia_variant out"
    and a: "scraped_at_attempt v w src link s 0 = Some a \<and> bears_sentinel a"
  from v have "accepts v a = (\<not> bears_sentinel a)"
    by (auto simp: euro_variant_def asia_variant_def bears_sentinel_def)
  with a show "article_attempts v w N src link (k # rest) s =
           article_attempts v w N src link rest
             (if int k < N - 1
              then s\<lparr>requests := requests s + 1, pauses := pauses s @ [article_backoff k]\<rparr>
              else s\<lparr>requests := requests s + 1\<rparr>)"
    by (simp add: scraped_at_attempt_def article_backoff_def Let_def)
next
  assume "run_euro w N out srcs d = Inr s'"
  then obtain s1 where "sources_loop (euro_variant out) w N srcs (initial_state d) = Inr s1"
    "all_articles s' = all_articles s1"
    by (auto simp: run_euro_def Let_def split: sum.splits)
  with run_accepted [of "euro_variant out" w N srcs d s1]
  show "list_all (\<lambda>a. \<not> bears_sentinel a) (all_articles s')"
    by (simp add: euro_variant_def bears_sentinel_def)
next
  assume "run_asia w N out srcs d = Inr s'"
  then obtain s1 where "sources_loop (asia_variant out) w N srcs (initial_state d) = Inr s1"
    "all_articles s' = all_articles s1"
    by (auto simp: run_asia_def Let_def split: sum.splits)
  with run_accepted [of "asia_variant out" w N srcs d s1]
  show "list_all (\<lambda>a. \<not> bears_sentinel a) (all_articles s')"
    by (simp add: asia_variant_def bears_sentinel_def)
next
  assume "run_us w N out key srcs d = Inr s'"
  then obtain s1 where
    s1: "sources_loop (us_variant out key) w N srcs (initial_state d) = Inr s1"
    "all_articles s' = all_articles s1"
    by (auto simp: run_us_def split: sum.splits)
  from run_accepted [OF s1(1)] have "list_all (accepts (us_variant out key)) (all_articles s')"
    by (simp add: s1(2))
  then show "list_all (\<lambda>a. content a \<noteq> ''Content not found'') (all_articles s')"
    by (rule list_all_weaken) (rule us_accepts_content)
next
  assume "scraped_at_attempt (general_variant out) w src link s 0 = Some a"
  moreover have "accepts (general_variant out) a"
    "\<And>clk. store (general_variant out) w clk a (disk s) = disk s"
    by (simp_all add: general_variant_def)
  ultimately show "article_attempts (general_variant out) w N src link (k # rest) s =
        s\<lparr>requests := requests s + 1, all_articles := all_articles s @ [a]\<rparr>"
    by (simp add: scraped_at_attempt_def Let_def)
qed



lemmas disk_eval =
  save_to_json_general_def save_to_json_regional_def write_file_def makedirs_def
  basename_def dirname_def is_dir_def is_file_def path_exists_def empty_disk_def

text \<open>
  C1 as stated fails for \<open>ArticleScraper.run\<close>: a record whose title and content are
  both placeholders is appended after one attempt, without any backoff.
\<close>

theorem general_accepts_sentinel_counterexample:
  "run_general (example_world 0 (listing ''/story/1'') (page [])) 3 ''out.json''
     [example_source] empty_disk =
   Inr \<lparr>requests = 2, pauses = [Jitter],
         article_links = Some [''https://example.com/story/1''],
         all_articles = [placeholder_record ''https://example.com/story/1''],
         disk = \<lparr>dirs = [],
                  files = [(''out.json'',
                            ArticlesDoc [placeholder_record ''https://example.com/story/1''])]\<rparr>\<rparr> \<and>
   title (placeholder_record ''https://example.com/story/1'') = ''Title not found'' \<and>
   content (placeholder_record ''https://example.com/story/1'') = ''Content not found''"
  by (simp add: run_general_def run_eval disk_eval) (simp add: placeholder_record_def)

theorem sentinel_records_retried_witness:
  "article_attempts (asia_variant ''out.json'') (example_world 0 (listing ''/story/1'') story) 3
     example_source ''https://example.com/story/1'' [0] (initial_state empty_disk) =
   (initial_state empty_disk)\<lparr>requests := 1,
      all_articles := [story_record ''https://example.com/story/1'']\<rparr> \<and>
   article_attempts (asia_variant ''out.json'') (example_world 0 (listing ''/story/1'') (page [])) 3
     example_source ''https://example.com/story/1'' [0] (initial_state empty_disk) =
   (initial_state empty_disk)\<lparr>requests := 1, pauses := [Secs 2]\<rparr> \<and>
   article_attempts (general_variant ''out.json'')
     (example_world 0 (listing ''/story/1'') (page [])) 3
     example_source ''https://example.com/story/1'' [0] (initial_state empty_disk) =
   (initial_state empty_disk)\<lparr>requests := 1,
      all_articles := [placeholder_record ''https://example.com/story/1'']\<rparr> \<and>
   (\<exists>s'. run_asia (example_world 0 (listing ''/story/1'') story) 3 ''out.json''
            [example_source] empty_disk = Inr s' \<and>
         all_articles s' = [story_record ''https://example.com/story/1''] \<and>
         list_all (\<lambda>a. \<not> bears_sentinel a) (all_articles s'))"
proof -
  let ?v = "asia_variant ''out.json''"
  let ?g = "general_variant ''out.json''"
  let ?w = "example_world 0 (listing ''/story/1'') story"
  let ?e = "example_world 0 (listing ''/story/1'') (page [])"
  let ?s = "initial_state empty_disk"
  let ?l = "''https://example.com/story/1''"
  let ?p = "placeholder_record ?l\<lparr>art_region := Some ''asia'',
       art_country := Some ''japan'', language := Some ''ja''\<rparr>"
  have good: "scraped_at_attempt ?v ?w example_source ?l ?s 0 = Some (story_record ?l)"
    "\<not> bears_sentinel (story_record ?l)"
    by (simp_all add: run_eval bears_sentinel_def story_record_def)
  have bad: "scraped_at_attempt ?v ?e example_source ?l ?s 0 = Some ?p" "bears_sentinel ?p"
    by (simp_all add: run_eval bears_sentinel_def placeholder_record_def)
  have gen: "scraped_at_attempt ?g ?e example_source ?l ?s 0 = Some (placeholder_record ?l)"
    by (simp add: run_eval)
  obtain s' where run: "run_asia ?w 3 ''out.json'' [example_source] empty_disk = Inr s'"
    and arts: "all_articles s' = [story_record ?l]"
    by (simp add: run_asia_def run_eval story_record_def)
  note t = sentinel_records_retried [where v = ?v and out = "''out.json''" and w = ?w
      and src = example_source and link = ?l and s = ?s and a = "story_record ?l"
      and N = 3 and k = 0 and rest = "[]" and srcs = "[example_source]"
      and d = empty_disk and s' = s']
  note u = sentinel_records_retried [where v = ?v and out = "''out.json''" and w = ?e
      and src = example_source and link = ?l and s = ?s and a = ?p
      and N = 3 and k = 0 and rest = "[]"]
  note g = sentinel_records_retried [where out = "''out.json''" and w = ?e
      and src = example_source and link = ?l and s = ?s and a = "placeholder_record ?l"
      and N = 3 and k = 0 and rest = "[]"]
  from t good have 1: "article_attempts ?v ?w 3 example_source ?l [0] ?s =
      ?s\<lparr>requests := requests ?s + 1, all_articles := all_articles ?s @ [story_record ?l]\<rparr>"
    by blast
  from u bad have 2: "article_attempts ?v ?e 3 example_source ?l [0] ?s =
      article_attempts ?v ?e 3 example_source ?l []
        (if int 0 < (3::int) - 1
         then ?s\<lparr>requests := requests ?s + 1, pauses := pauses ?s @ [article_backoff 0]\<rparr>
         else ?s\<lparr>requests := requests ?s + 1\<rparr>)"
    by blast
  from g gen have 3: "article_attempts ?g ?e 3 example_source ?l [0] ?s =
      ?s\<lparr>requests := requests ?s + 1,
        all_articles := all_articles ?s @ [placeholder_record ?l]\<rparr>"
    by blast
  from t run have 4: "list_all (\<lambda>a. \<not> bears_sentinel a) (all_articles s')"
    by blast
  show ?thesis
    unfolding 1 2 3 using run arts 4
    by (simp add: initial_state_def article_backoff_def)
qed



section \<open>Saving the accumulator\<close>

lemma map_of_put: "map_of (put p d fs) q = (if q = p then Some d else map_of fs q)"
  by (induction p d fs rule: put.induct) auto

lemma dirname_shorter: "length (dirname p) + length (basename p) \<le> length p"
proof -
  let ?h = "rev (dropWhile (\<lambda>c. c \<noteq> CHR ''/'') (rev p))"
  have "length ?h + length (basename p) = length p"
    unfolding basename_def
    by (metis length_rev length_append takeWhile_dropWhile_id add.commute)
  moreover have "length (rev (dropWhile (\<lambda>c. c = CHR ''/'') (rev ?h))) \<le> length ?h"
    using length_dropWhile_le [of "\<lambda>c. c = CHR ''/''" "rev ?h"] by simp
  then have "length (dirname p) \<le> length ?h"
    by (simp add: dirname_def Let_def)
  ultimately show ?thesis by linarith
qed

lemma ancestors_shorter:
  "x \<in> set (ancestors_from pre p) \<Longrightarrow> length x < length pre + length p"
  by (induction pre p rule: ancestors_from.induct) (auto split: if_splits)

lemma write_file_ok:
  "basename p \<noteq> [] \<Longrightarrow> \<not> is_dir d p \<Longrightarrow> dirname p = [] \<or> is_dir d (dirname p) \<Longrightarrow>
     write_file p doc d = Some (d\<lparr>files := put p doc (files d)\<rparr>)"
  by (simp add: write_file_def)

lemma save_general_ok:
  assumes "basename out \<noteq> []" "\<not> is_dir d out" "dirname out = [] \<or> is_dir d (dirname out)"
  shows "map_of (files (save_to_json_general out arts d)) out = Some (ArticlesDoc arts)"
  using assms by (simp add: save_to_json_general_def write_file_ok map_of_put)

lemma save_regional_ok:
  assumes b: "basename out \<noteq> []" and nd: "\<not> is_dir d out"
    and nf: "\<not> is_file d (dirname out)"
    and na: "\<not> list_ex (is_file d) (ancestors_from [] (dirname out))"
  shows "map_of (files (save_to_json_regional out arts d)) out = Some (ArticlesDoc arts) \<and>
         (dirname out = [] \<or> is_dir (save_to_json_regional out arts d) (dirname out))"
proof (cases "dirname out \<noteq> [] \<and> \<not> path_exists d (dirname out)")
  case False
  then have "dirname out = [] \<or> is_dir d (dirname out)"
    using nf by (auto simp: path_exists_def)
  moreover from False have "save_to_json_regional out arts d =
      (case write_file out (ArticlesDoc arts) d of Some d2 \<Rightarrow> d2 | None \<Rightarrow> d)"
    by (auto simp: save_to_json_regional_def Let_def)
  ultimately show ?thesis
    using b nd by (auto simp: write_file_ok map_of_put is_dir_def)
next
  case True
  define d1 where
    "d1 = d\<lparr>dirs := dirs d
       @ filter (\<lambda>a. \<not> is_dir d a) (ancestors_from [] (dirname out) @ [dirname out])\<rparr>"
  from True nf na have m: "makedirs (dirname out) False d = Some d1"
    unfolding d1_def by (simp add: makedirs_def path_exists_def)
  have len: "length (dirname out) < length out"
    using dirname_shorter [of out] b by (cases "basename out") auto
  have "out \<notin> set (ancestors_from [] (dirname out) @ [dirname out])"
    using len ancestors_shorter [of out "[]" "dirname out"] by auto
  then have nd1: "\<not> is_dir d1 out"
    using nd unfolding d1_def by (auto simp: is_dir_def)
  have pd: "is_dir d1 (dirname out)"
    using True unfolding d1_def by (auto simp: is_dir_def path_exists_def)
  have w: "write_file out (ArticlesDoc arts) d1 =
      Some (d1\<lparr>files := put out (ArticlesDoc arts) (files d1)\<rparr>)"
    using b nd1 pd by (simp add: write_file_ok)
  from True have "save_to_json_regional out arts d =
      d1\<lparr>files := put out (ArticlesDoc arts) (files d1)\<rparr>"
    by (simp add: save_to_json_regional_def Let_def m w)
  then show ?thesis
    using pd by (simp add: map_of_put is_dir_def)
qed





text \<open>
  \<open>ArticleScraper.save_to_json\<close> does not create the directory of the output path: the
  save fails where that of the Europe and Asia scrapers succeeds.
\<close>

lemma general_save_needs_directory:
  "save_to_json_general ''data/out.json'' arts empty_disk = empty_disk \<and>
   save_to_json_regional ''data/out.json'' arts empty_disk =
     \<lparr>dirs = [''data''], files = [(''data/out.json'', ArticlesDoc arts)]\<rparr>"
  by (simp add: disk_eval Let_def)







lemma out_json_paths:
  "openable us_disk ''out.json''" "free_path us_disk ''out.json''"
  "replace_json ''out.json'' \<noteq> ''out.json''"
  "listdir us_disk (path_join ''out'' ''articles'') = Some []"
  "openable empty_disk ''out.json''" "free_path empty_disk ''data/out.json''"
  by (simp_all add: openable_def free_path_def us_disk_def empty_disk_def basename_def
      dirname_def is_dir_def is_file_def startswith_def listdir_def path_join_def endswith_def)


section \<open>Properties of the reports\<close>

lemma write_file_files:
  "map_of (files (case write_file p doc d of Some d' \<Rightarrow> d' | None \<Rightarrow> d)) q =
     (if q = p \<and> openable d p then Some doc else map_of (files d) q)"
  by (auto simp: write_file_def openable_def map_of_put)

lemma report_regional_empty:
  assumes "map_of (files d1) out = Some (ArticlesDoc [])"
  shows "\<exists>rep. fst (generate_report_regional cats langs clk out d1) = Some rep \<and>
           total_articles rep = 0 \<and> average_content_length rep = 0"
  using assms by (simp add: generate_report_regional_def Let_def)

lemma report_regional_keeps:
  assumes "replace_json out \<noteq> out"
  shows "map_of (files (snd (generate_report_regional cats langs clk out d1))) out =
           map_of (files d1) out"
proof (cases "map_of (files d1) out")
  case None
  then show ?thesis by (simp add: generate_report_regional_def)
next
  case (Some doc)
  show ?thesis
  proof (cases doc)
    case (ArticlesDoc arts)
    with Some assms show ?thesis
      by (auto simp: generate_report_regional_def Let_def truediv_def write_file_files
          split: prod.splits)
  qed (use Some in \<open>simp_all add: generate_report_regional_def\<close>)
qed

lemma report_general_total:
  "\<exists>rep d'. generate_report_general srcs clk out arts d = Inr (rep, d')"
  by (cases "count_general srcs arts
        (\<lparr>total_articles = length arts, by_source = [],
          by_region = Some [(''north_america'', 0), (''europe'', 0), (''asia'', 0)],
          by_country = None,
          by_category = [(''technology'', 0), (''business'', 0), (''investing'', 0)],
          by_language = None, average_content_length = 0,
          timeframe = Some (isonow clk, isonow clk), report_scraped_at = None\<rparr>, 0)")
     (simp add: generate_report_general_def truediv_def Let_def)

lemma report_general_empty:
  "\<exists>rep d'. generate_report_general srcs clk out [] d = Inr (rep, d') \<and>
     total_articles rep = 0 \<and> average_content_length rep = 0"
  by (simp add: generate_report_general_def Let_def)

lemma report_us_empty:
  assumes "listdir d (path_join dir ''articles'') = Some names"
    "filter (\<lambda>f. endswith f ''.json'') names = []"
  shows "\<exists>rep. fst (generate_report_us clk dir d) = Some rep \<and>
           total_articles rep = 0 \<and> average_content_length rep = 0"
  using assms by (simp add: generate_report_us_def Let_def)

text \<open>
  C8. With no source the run completes with an empty accumulator and saves it: the
  output file then holds the empty list (when it can be opened; for the Europe and
  Asia scrapers, when nothing is in the way). The report of an empty collection has
  \<open>total_articles\<close> 0 and \<open>average_content_length\<close> 0, and \<open>generate_report\<close> never
  ends with a division by zero. The US scraper keeps one file per article; its report
  over a directory without article files has the same two zeros.
\<close>

theorem empty_collection_report:
  "run_general w N out [] d = Inr ((initial_state d)\<lparr>disk := save_to_json_general out [] d\<rparr>) \<and>
   (openable d out \<longrightarrow>
      map_of (files (save_to_json_general out [] d)) out = Some (ArticlesDoc [])) \<and>
   (\<exists>rep d'. generate_report_general srcs clk out [] d = Inr (rep, d') \<and>
      total_articles rep = 0 \<and> average_content_length rep = 0) \<and>
   (\<exists>rep d'. generate_report_general srcs clk out arts d = Inr (rep, d')) \<and>
   run_euro w N out [] d =
     Inr ((initial_state d)\<lparr>disk := snd (generate_report_euro (clock_at w 0) out
                                        (save_to_json_regional out [] d))\<rparr>) \<and>
   run_asia w N out [] d =
     Inr ((initial_state d)\<lparr>disk := snd (generate_report_asia (clock_at w 0) out
                                        (save_to_json_regional out [] d))\<rparr>) \<and>
   (free_path d out \<longrightarrow>
      map_of (files (save_to_json_regional out [] d)) out = Some (ArticlesDoc []) \<and>
      (\<exists>rep. fst (generate_report_euro clk out (save_to_json_regional out [] d)) = Some rep \<and>
         total_articles rep = 0 \<and> average_content_length rep = 0) \<and>
      (\<exists>rep. fst (generate_report_asia clk out (save_to_json_regional out [] d)) = Some rep \<and>
         total_articles rep = 0 \<and> average_content_length rep = 0) \<and>
      (replace_json out \<noteq> out \<longrightarrow>
         map_of (files (snd (generate_report_euro clk out (save_to_json_regional out [] d))))
           out = Some (ArticlesDoc []) \<and>
         map_of (files (snd (generate_report_asia clk out (save_to_json_regional out [] d))))
           out = Some (ArticlesDoc []))) \<and>
   run_us w N dir key [] d =
     Inr ((initial_state d)\<lparr>disk := snd (generate_report_us (clock_at w 0) dir d)\<rparr>) \<and>
   (listdir d (path_join dir ''articles'') = Some names \<and>
    filter (\<lambda>f. endswith f ''.json'') names = [] \<longrightarrow>
      (\<exists>rep. fst (generate_report_us clk dir d) = Some rep \<and>
         total_articles rep = 0 \<and> average_content_length rep = 0))"
proof -
  have g: "run_general w N out [] d =
      Inr ((initial_state d)\<lparr>disk := save_to_json_general out [] d\<rparr>)"
    by (simp add: run_general_def initial_state_def)
  have go: "openable d out \<longrightarrow>
      map_of (files (save_to_json_general out [] d)) out = Some (ArticlesDoc [])"
    by (simp add: save_general_ok openable_def)
  have e: "run_euro w N out [] d =
     Inr ((initial_state d)\<lparr>disk := snd (generate_report_euro (clock_at w 0) out
                                        (save_to_json_regional out [] d))\<rparr>)"
    by (simp add: run_euro_def initial_state_def)
  have a: "run_asia w N out [] d =
     Inr ((initial_state d)\<lparr>disk := snd (generate_report_asia (clock_at w 0) out
                                        (save_to_json_regional out [] d))\<rparr>)"
    by (simp add: run_asia_def initial_state_def)
  have u: "run_us w N dir key [] d =
     Inr ((initial_state d)\<lparr>disk := snd (generate_report_us (clock_at w 0) dir d)\<rparr>)"
    by (simp add: run_us_def initial_state_def)
  have r: "free_path d out \<longrightarrow>
      map_of (files (save_to_json_regional out [] d)) out = Some (ArticlesDoc []) \<and>
      (\<exists>rep. fst (generate_report_euro clk out (save_to_json_regional out [] d)) = Some rep \<and>
         total_articles rep = 0 \<and> average_content_length rep = 0) \<and>
      (\<exists>rep. fst (generate_report_asia clk out (save_to_json_regional out [] d)) = Some rep \<and>
         total_articles rep = 0 \<and> average_content_length rep = 0) \<and>
      (replace_json out \<noteq> out \<longrightarrow>
         map_of (files (snd (generate_report_euro clk out (save_to_json_regional out [] d))))
           out = Some (ArticlesDoc []) \<and>
         map_of (files (snd (generate_report_asia clk out (save_to_json_regional out [] d))))
           out = Some (ArticlesDoc []))"
  proof
    assume "free_path d out"
    then have s: "map_of (files (save_to_json_regional out [] d)) out = Some (ArticlesDoc [])"
      using save_regional_ok [of out d "[]"] by (simp add: free_path_def)
    show "map_of (files (save_to_json_regional out [] d)) out = Some (ArticlesDoc []) \<and>
      (\<exists>rep. fst (generate_report_euro clk out (save_to_json_regional out [] d)) = Some rep \<and>
         total_articles rep = 0 \<and> average_content_length rep = 0) \<and>
      (\<exists>rep. fst (generate_report_asia clk out (save_to_json_regional out [] d)) = Some rep \<and>
         total_articles rep = 0 \<and> average_content_length rep = 0) \<and>
      (replace_json out \<noteq> out \<longrightarrow>
         map_of (files (snd (generate_report_euro clk out (save_to_json_regional out [] d))))
           out = Some (ArticlesDoc []) \<and>
         map_of (files (snd (generate_report_asia clk out (save_to_json_regional out [] d))))
           out = Some (ArticlesDoc []))"
      unfolding generate_report_euro_def generate_report_asia_def
      using s report_regional_empty [OF s] by (simp add: report_regional_keeps)
  qed
  from g go e a u r report_general_empty [of srcs clk out d]
    report_general_total [of srcs clk out arts d] report_us_empty [of d dir names clk]
  show ?thesis by blast
qed

theorem empty_collection_report_witness:
  "map_of (files (save_to_json_general ''out.json'' [] us_disk)) ''out.json'' =
     Some (ArticlesDoc []) \<and>
   map_of (files (save_to_json_regional ''out.json'' [] us_disk)) ''out.json'' =
     Some (ArticlesDoc []) \<and>
   map_of (files (snd (generate_report_asia example_clock ''out.json''
     (save_to_json_regional ''out.json'' [] us_disk)))) ''out.json'' = Some (ArticlesDoc []) \<and>
   (\<exists>rep. fst (generate_report_asia example_clock ''out.json''
              (save_to_json_regional ''out.json'' [] us_disk)) = Some rep \<and>
          total_articles rep = 0 \<and> average_content_length rep = 0) \<and>
   (\<exists>rep. fst (generate_report_us example_clock ''out'' us_disk) = Some rep \<and>
          total_articles rep = 0 \<and> average_content_length rep = 0)"
  using empty_collection_report [where d = us_disk and out = "''out.json''" and dir = "''out''"
      and names = "[]" and clk = example_clock]
    out_json_paths
  by simp


section \<open>Properties of the clustering\<close>

lemma getitem_in_range: "0 \<le> i \<Longrightarrow> i < int (length xs) \<Longrightarrow> getitem xs i = Inr (xs ! nat i)"
  by (simp add: getitem_def)

lemma in_range_index:
  "in_range x n = Some True \<Longrightarrow> as_index x = Some i \<Longrightarrow> 0 \<le> i \<and> i < int n"
  by (cases x) (auto split: if_splits)

lemma in_range_out:
  "in_range x n = Some False \<Longrightarrow> as_index x = Some i \<Longrightarrow> \<not> (0 \<le> i \<and> i < int n)"
  by (cases x) (auto split: if_splits)

lemma in_range_no_index:
  "in_range x n = Some False \<Longrightarrow>
     (case as_index x of Some i \<Rightarrow> if 0 \<le> i \<and> i < int n then Some (nat i) else None
      | None \<Rightarrow> None) = None"
  by (cases x) (auto split: if_splits)

lemma collect_never_out_of_range: "collect_articles md ids acc \<noteq> Inl IndexError"
proof (induction ids arbitrary: acc)
  case Nil
  then show ?case by simp
next
  case (Cons x ids)
  show ?case
  proof (cases "in_range x (length md)")
    case None
    then show ?thesis by simp
  next
    case (Some b)
    show ?thesis
    proof (cases b)
      case False
      with Some Cons.IH show ?thesis by simp
    next
      case True
      show ?thesis
      proof (cases "as_index x")
        case None
        with Some True show ?thesis by simp
      next
        case (Some i)
        from \<open>in_range x (length md) = Some b\<close> True
        have bt: "in_range x (length md) = Some True" by simp
        from in_range_index [OF bt Some] have "getitem md i = Inr (md ! nat i)"
          by (simp add: getitem_in_range)
        with Some bt Cons.IH show ?thesis by simp
      qed
    qed
  qed
qed

lemma collect_selected:
  "collect_articles md ids acc = Inr arts \<Longrightarrow>
     arts = acc @ map (\<lambda>j. full_article (md ! j)) (selected_positions (length md) ids)"
proof (induction ids arbitrary: acc)
  case Nil
  then show ?case by (simp add: selected_positions_def map_filter_simps)
next
  case (Cons x ids)
  from Cons.prems obtain b where b: "in_range x (length md) = Some b"
    by (cases "in_range x (length md)") auto
  show ?case
  proof (cases b)
    case False
    with b Cons.prems have "collect_articles md ids acc = Inr arts" by simp
    from Cons.IH [OF this] in_range_no_index [of x "length md"] b False show ?thesis
      by (simp add: selected_positions_def map_filter_simps)
  next
    case True
    with b have bt: "in_range x (length md) = Some True" by simp
    with Cons.prems obtain i where i: "as_index x = Some i"
      by (cases "as_index x") auto
    from in_range_index [OF bt i] have r: "0 \<le> i \<and> i < int (length md)" .
    then have g: "getitem md i = Inr (md ! nat i)"
      by (simp add: getitem_in_range)
    with bt i Cons.prems
    have "collect_articles md ids (acc @ [full_article (md ! nat i)]) = Inr arts" by simp
    from Cons.IH [OF this] i r show ?thesis
      by (simp add: selected_positions_def map_filter_simps)
  qed
qed

lemma selected_in_range: "list_all (\<lambda>j. j < n) (selected_positions n ids)"
  by (induction ids)
     (auto simp: selected_positions_def map_filter_simps split: option.splits)

lemma collect_from_input:
  assumes "collect_articles md ids [] = Inr arts"
  shows "set arts \<subseteq> full_article ` set md"
proof -
  from collect_selected [OF assms]
  have "arts = map (\<lambda>j. full_article (md ! j)) (selected_positions (length md) ids)" by simp
  moreover have "\<forall>j \<in> set (selected_positions (length md) ids). j < length md"
    using selected_in_range [of "length md" ids] by (simp add: list_all_iff)
  ultimately show ?thesis by auto
qed

lemma metadata_of_loaded:
  "extract_article_metadata loaded = Inr md \<Longrightarrow> map full_article md = loaded"
proof (induction loaded arbitrary: md)
  case Nil
  then show ?case by simp
next
  case (Cons article rest)
  from Cons.prems obtain m ms where
    "md = m # ms" "full_article m = article" "extract_article_metadata rest = Inr ms"
    by (auto split: option.splits sum.splits)
  with Cons.IH show ?case by simp
qed

lemma map_themes_sound:
  "map_themes md ts acc = Inr out \<Longrightarrow> list_all (sound_theme md) acc \<Longrightarrow>
     list_all (sound_theme md) out"
proof (induction ts arbitrary: acc)
  case Nil
  then show ?case by simp
next
  case (Cons theme ts)
  from Cons.prems(1) obtain nm ds ids id_list arts where
    s: "py_get theme ''name'' (JStr ''Unnamed Theme'') = Some nm"
       "py_get theme ''description'' (JStr []) = Some ds"
       "py_get theme ''article_ids'' (JArr []) = Some ids"
       "py_iter ids = Some id_list"
       "collect_articles md id_list [] = Inr arts"
    by (auto split: option.splits sum.splits)
  let ?acc = "if arts \<noteq> []
     then acc @ [\<lparr>theme_name = nm, theme_description = ds, articles = arts\<rparr>] else acc"
  from Cons.prems(1) s have r: "map_themes md ts ?acc = Inr out" by simp
  have "arts \<noteq> [] \<Longrightarrow>
      sound_theme md \<lparr>theme_name = nm, theme_description = ds, articles = arts\<rparr>"
    using collect_from_input [OF s(5)] by (simp add: sound_theme_def)
  then have "list_all (sound_theme md) ?acc"
    using Cons.prems(2) by simp
  from Cons.IH [OF r this] show ?case .
qed

text \<open>
  C10. For every parsed response, an id of a theme is never used as an index outside
  the list of the loaded articles; when the loop over the ids of a theme ends without
  exception, the articles of the theme are those at the ids \<open>i\<close> that are integers with
  \<open>0 <= i < n\<close>, in their order, for \<open>n\<close> loaded articles. Every theme of the returned
  data has at least one article, and each of its articles is a loaded article.
\<close>

theorem clustering_keeps_valid_ids:
  "collect_articles md ids acc \<noteq> Inl IndexError \<and>
   (collect_articles md ids [] = Inr arts \<longrightarrow>
      arts = map (\<lambda>j. full_article (md ! j)) (selected_positions (length md) ids) \<and>
      list_all (\<lambda>j. j < length md) (selected_positions (length md) ids)) \<and>
   (cluster_articles_by_theme client_ready reply now md = Some cd \<longrightarrow>
      list_all (sound_theme md) (themes cd)) \<and>
   (extract_article_metadata loaded = Inr md \<longrightarrow> full_article ` set md = set loaded)"
proof (intro conjI impI)
  assume "extract_article_metadata loaded = Inr md"
  from metadata_of_loaded [OF this] show "full_article ` set md = set loaded"
    by (metis set_map)
next
  show "collect_articles md ids acc \<noteq> Inl IndexError"
    by (rule collect_never_out_of_range)
next
  assume "collect_articles md ids [] = Inr arts"
  from collect_selected [OF this]
  show "arts = map (\<lambda>j. full_article (md ! j)) (selected_positions (length md) ids)"
    by simp
next
  show "list_all (\<lambda>j. j < length md) (selected_positions (length md) ids)"
    by (rule selected_in_range)
next
  assume "cluster_articles_by_theme client_ready reply now md = Some cd"
  then obtain ts where "map_themes md ts [] = Inr (themes cd)"
    by (auto simp: cluster_articles_by_theme_def split: if_splits option.splits sum.splits)
  from map_themes_sound [OF this] show "list_all (sound_theme md) (themes cd)"
    by simp
qed


lemma example_collect: "collect_articles example_metadata example_ids [] = Inr example_loaded"
  by (simp add: example_metadata_def example_ids_def example_loaded_def getitem_def)

lemma example_extract: "extract_article_metadata example_loaded = Inr example_metadata"
  by (simp add: example_metadata_def example_loaded_def)

lemma example_cluster:
  "cluster_articles_by_theme True (Some example_reply) ''2024-05-01T12:00:00''
     example_metadata = Some example_clusters"
  by (simp add: cluster_articles_by_theme_def example_reply_def example_collect
        example_clusters_def)
     (simp add: example_metadata_def example_loaded_def)

theorem clustering_keeps_valid_ids_witness:
  "example_loaded =
     map (\<lambda>j. full_article (example_metadata ! j))
       (selected_positions (length example_metadata) example_ids) \<and>
   list_all (\<lambda>j. j < length example_metadata)
     (selected_positions (length example_metadata) example_ids) \<and>
   list_all (sound_theme example_metadata) (themes example_clusters) \<and>
   map theme_name (themes example_clusters) = [JStr ''AI''] \<and>
   full_article ` set example_metadata = set example_loaded"
  using clustering_keeps_valid_ids [of example_metadata example_ids "[]" example_loaded True
      "Some example_reply" "''2024-05-01T12:00:00''" example_clusters example_loaded]
    example_collect example_extract example_cluster
  by (simp add: example_clusters_def)

end
